theory Spec2Isabelle
  imports Complex_Main "HOL-Library.Log_Nat"
begin

section \<open>Python values and exceptions\<close>

text \<open>
  The synchronisation script \<^verbatim>\<open>actualizar_bd.py\<close> works on what
  \<^verbatim>\<open>response.json()\<close> returns and on the cells of pandas frames built from it.
  A Python value is a JSON value, a float that is not a number, or one of the two
  values that pandas puts into a frame (a timestamp, counted in nanoseconds, and the
  missing timestamp \<^verbatim>\<open>NaT\<close>). A float is the rational number it denotes;
  a dictionary is the list of its items in insertion order, its keys distinct.
\<close>

datatype pyval =
    PNone
  | PBool bool
  | PInt int
  | PFloat rat
  | PNaN
  | PStr string
  | PList "pyval list"
  | PDict "(string \<times> pyval) list"
  | PTimestamp int
  | PNaT

text \<open>
  The exceptions the script can end with. \<open>GraphQLError n\<close> is the
  \<^verbatim>\<open>Exception(f"Error al consultar GraphQL ({response.status_code})")\<close> of
  \<^verbatim>\<open>consulta_graphql\<close>; \<open>Exception m\<close> is the \<^verbatim>\<open>Exception\<close> with message
  \<open>m\<close> that \<^verbatim>\<open>main\<close> raises from its \<^verbatim>\<open>except\<close> clause;
  \<open>DatabaseError m\<close> is an error of the database driver with message \<open>m\<close>;
  \<open>RequestError m\<close> is what \<^verbatim>\<open>requests.post\<close> raises when the endpoint
  cannot be reached; \<open>ValueError\<close> and \<open>OverflowError\<close> are raised by the
  coercions of pandas, \<open>TypeError\<close> also by a key that has no hash.
\<close>

datatype error =
    RequestError string
  | JSONDecodeError
  | GraphQLError int
  | KeyError string
  | TypeError
  | ValueError
  | OverflowError
  | DatabaseError string
  | Exception string

text \<open>
  \<^verbatim>\<open>str(e)\<close>, where the script formats an exception into a message. Only an error
  of the driver is raised inside the \<^verbatim>\<open>try\<close> block of \<^verbatim>\<open>main\<close>, and its text is
  its message; the texts of the other exceptions are not used.
\<close>

fun str_of :: "error \<Rightarrow> string" where
  "str_of (RequestError m) = m"
| "str_of JSONDecodeError = ''JSONDecodeError''"
| "str_of (GraphQLError n) = ''Error al consultar GraphQL''"
| "str_of (KeyError k) = k"
| "str_of TypeError = ''TypeError''"
| "str_of ValueError = ''ValueError''"
| "str_of OverflowError = ''OverflowError''"
| "str_of (DatabaseError m) = m"
| "str_of (Exception m) = m"

text \<open>
  \<^verbatim>\<open>v[k]\<close> for a string \<open>k\<close>: a dictionary gives the value stored under the key or
  raises KeyError; every other value raises TypeError (a list or a string takes no
  string index, the other values take none).
\<close>

fun subscript :: "pyval \<Rightarrow> string \<Rightarrow> error + pyval" where
  "subscript (PDict items) k =
     (case map_of items k of None \<Rightarrow> Inl (KeyError k) | Some v \<Rightarrow> Inr v)"
| "subscript _ k = Inl TypeError"

text \<open>The truth value of a Python value, as \<^verbatim>\<open>if v\<close> tests it.\<close>

fun truthy :: "pyval \<Rightarrow> bool" where
  "truthy PNone = False"
| "truthy (PBool b) = b"
| "truthy (PInt i) = (i \<noteq> 0)"
| "truthy (PFloat q) = (q \<noteq> 0)"
| "truthy (PStr s) = (s \<noteq> [])"
| "truthy (PList xs) = (xs \<noteq> [])"
| "truthy (PDict items) = (items \<noteq> [])"
| "truthy _ = True"

section \<open>The query client\<close>

text \<open>
  The three query constants of the script, and an HTTP response: its status code and
  its body as \<^verbatim>\<open>response.json()\<close> reads it (\<open>None\<close> when the body is not JSON,
  which raises).
\<close>

datatype query = QUERY_CLIENTES | QUERY_CASOS | QUERY_SERVICIOS

record response =
  status_code :: int
  json_body :: "pyval option"

text \<open>
  \<^verbatim>\<open>
  def consulta_graphql(query: str) -> dict:
      response = requests.post(GRAPHQL_URL, json={"query": query})
      if response.status_code != 200:
          raise Exception(f"Error al consultar GraphQL ({response.status_code})")
      return response.json()["data"]
  \<close>
  The endpoint is the parameter \<open>post\<close>: what \<^verbatim>\<open>requests.post\<close> answers to a query.
\<close>

definition consulta_graphql :: "(query \<Rightarrow> error + response) \<Rightarrow> query \<Rightarrow> error + pyval" where
  "consulta_graphql post q =
     (case post q of
        Inl e \<Rightarrow> Inl e
      | Inr response \<Rightarrow>
          if status_code response \<noteq> 200 then Inl (GraphQLError (status_code response))
          else (case json_body response of
                  None \<Rightarrow> Inl JSONDecodeError
                | Some j \<Rightarrow> subscript j ''data''))"

section \<open>Exceptions as values\<close>

text \<open>A statement after one that raised does not run: \<open>bind_err\<close> sequences two steps.\<close>

definition bind_err :: "error + 'a \<Rightarrow> ('a \<Rightarrow> error + 'b) \<Rightarrow> error + 'b" where
  "bind_err m f = (case m of Inl e \<Rightarrow> Inl e | Inr x \<Rightarrow> f x)"

text \<open>A loop that builds a list, one element per iteration, and stops at the first exception.\<close>

fun map_err :: "('a \<Rightarrow> error + 'b) \<Rightarrow> 'a list \<Rightarrow> error + 'b list" where
  "map_err f [] = Inr []"
| "map_err f (x # xs) =
     (case f x of
        Inl e \<Rightarrow> Inl e
      | Inr y \<Rightarrow> (case map_err f xs of Inl e \<Rightarrow> Inl e | Inr ys \<Rightarrow> Inr (y # ys)))"

text \<open>
  \<^verbatim>\<open>for x in v\<close>: a list gives its elements, a dictionary its keys, a string its
  characters; nothing else the model holds is iterable.
\<close>

fun iterate :: "pyval \<Rightarrow> error + pyval list" where
  "iterate (PList xs) = Inr xs"
| "iterate (PDict items) = Inr (map (\<lambda>kv. PStr (fst kv)) items)"
| "iterate (PStr s) = Inr (map (\<lambda>c. PStr [c]) s)"
| "iterate _ = Inl TypeError"

section \<open>Floats\<close>

text \<open>
  A Python float is an IEEE binary64 number. \<open>float64 q\<close> is the float nearest to the
  rational \<open>q\<close>, ties to the even significand, as the conversion of a decimal literal
  and every arithmetic operation round. Subnormal numbers are covered; the exponent is
  not bounded above, so the model has no infinity (it agrees with binary64 below
  \<open>2 ^ 1024\<close>).
\<close>

definition round_half_even :: "rat \<Rightarrow> int" where
  "round_half_even x =
     (let f = \<lfloor>x\<rfloor>; d = x - of_int f in
      if d < 1 / 2 then f else if 1 / 2 < d then f + 1 else if even f then f else f + 1)"

definition floor_log2 :: "rat \<Rightarrow> int" where
  "floor_log2 q = (if 1 \<le> q then bitlen \<lfloor>q\<rfloor> - 1 else - bitlen (\<lceil>1 / q\<rceil> - 1))"

definition float64 :: "rat \<Rightarrow> rat" where
  "float64 q =
     (if q = 0 then 0
      else (let p = max (floor_log2 \<bar>q\<bar> - 52) (- 1074) in
            of_int (round_half_even (q / 2 powi p)) * 2 powi p))"

section \<open>Frames\<close>

text \<open>
  A pandas frame, as far as the script uses one: the column labels and the rows, each
  row holding one cell per column. The index is not modelled (the script resets it and
  iterates with \<^verbatim>\<open>index=False\<close>). A cell is the Python value that iterating over the
  frame gives.
\<close>

record dataframe =
  columns :: "string list"
  rows :: "pyval list list"

text \<open>
  The script imports pandas as \<^verbatim>\<open>pd\<close> and pins no version of it. What it leaves to
  the library, and what differs between the library's versions, is a parameter of the
  model:
  \<^item> \<open>infer_string\<close>: whether a column of strings and missing values is read as a
    string column (the default from pandas 3 on), where \<^verbatim>\<open>None\<close> is held as
    \<^verbatim>\<open>NaN\<close>;
  \<^item> \<open>parse_datetime col i\<close>: what \<^verbatim>\<open>pd.to_datetime(col, errors="coerce")\<close> does at
    position \<open>i\<close> of the column \<open>col\<close> (the whole column is given, since pandas may
    infer one format for all of it and may refuse a combination of cells): the
    timestamp it reads, \<open>None\<close> when it reads none, or the exception it raises for all
    that \<^verbatim>\<open>errors="coerce"\<close> is passed;
  \<^item> \<open>parse_number v\<close>: the number, an integer or a float, that \<^verbatim>\<open>pd.to_numeric\<close>
    reads from a cell that is neither a number, a boolean nor missing (a string, say),
    \<open>None\<close> when it reads none.
\<close>

record pandas =
  infer_string :: bool
  parse_datetime :: "pyval list \<Rightarrow> nat \<Rightarrow> error + int option"
  parse_number :: "pyval \<Rightarrow> (int + rat) option"

text \<open>The elements of a list in the order of their first occurrence.\<close>

fun uniq :: "'a list \<Rightarrow> 'a list \<Rightarrow> 'a list" where
  "uniq seen [] = []"
| "uniq seen (x # xs) = (if x \<in> set seen then uniq seen xs else x # uniq (x # seen) xs)"

text \<open>
  The type pandas infers for a column of Python values. A column of integers is an
  integer column. A column of integers, floats and missing values with a float or a
  missing value in it is a float column: an integer in it is that float, \<^verbatim>\<open>None\<close> is
  \<^verbatim>\<open>NaN\<close>. With \<open>infer_string\<close>, a column of strings and missing values with a
  string in it is a string column, and \<^verbatim>\<open>None\<close> in it is \<^verbatim>\<open>NaN\<close>. Any other
  column (strings mixed with other values, a boolean, a list or a dictionary in it,
  \<^verbatim>\<open>None\<close> only) keeps its values as they are. Integers beyond 64 bits next to a
  float or a missing value are not modelled.
\<close>

fun is_int :: "pyval \<Rightarrow> bool" where
  "is_int (PInt i) = True"
| "is_int _ = False"

fun is_float :: "pyval \<Rightarrow> bool" where
  "is_float (PFloat q) = True"
| "is_float PNaN = True"
| "is_float _ = False"

fun is_str :: "pyval \<Rightarrow> bool" where
  "is_str (PStr s) = True"
| "is_str _ = False"

fun as_float :: "pyval \<Rightarrow> pyval" where
  "as_float (PInt i) = PFloat (float64 (of_int i))"
| "as_float PNone = PNaN"
| "as_float v = v"

fun as_missing :: "pyval \<Rightarrow> pyval" where
  "as_missing PNone = PNaN"
| "as_missing v = v"

definition infer_objects :: "pandas \<Rightarrow> pyval list \<Rightarrow> pyval list" where
  "infer_objects pd col =
     (if list_all is_int col then col
      else if list_all (\<lambda>v. is_int v \<or> is_float v \<or> v = PNone) col \<and>
              list_ex (\<lambda>v. is_int v \<or> is_float v) col
      then map as_float col
      else if infer_string pd \<and> list_all (\<lambda>v. is_str v \<or> v = PNone \<or> v = PNaN) col \<and>
              list_ex is_str col
      then map as_missing col
      else col)"

text \<open>
  \<^verbatim>\<open>pd.DataFrame(records)\<close> for a list of dictionaries: the columns are the keys in the
  order they first appear, a record without a key gets \<^verbatim>\<open>NaN\<close> there, and each column
  gets the type pandas infers for it. An empty list gives a frame with no column and
  no row.
\<close>

definition DataFrame_records :: "pandas \<Rightarrow> (string \<times> pyval) list list \<Rightarrow> dataframe" where
  "DataFrame_records pd recs =
     (let cols = uniq [] (concat (map (map fst) recs));
          cells = map (\<lambda>c. infer_objects pd
                    (map (\<lambda>r. case map_of r c of None \<Rightarrow> PNaN | Some v \<Rightarrow> v) recs)) cols
      in \<lparr>columns = cols,
          rows = map (\<lambda>n. map (\<lambda>col. col ! n) cells) [0 ..< length recs]\<rparr>)"

fun as_record :: "pyval \<Rightarrow> (string \<times> pyval) list option" where
  "as_record (PDict items) = Some items"
| "as_record _ = None"

text \<open>
  \<^verbatim>\<open>pd.DataFrame(data)\<close> on what a query returned. The payload of a GraphQL list field
  is a list of objects or \<^verbatim>\<open>null\<close>; \<^verbatim>\<open>pd.DataFrame(None)\<close> is the empty frame.
  What pandas builds from any other value (a list of scalars, a scalar) is not
  modelled: \<open>Unmodelled\<close> stands for it.
\<close>

datatype 'a modelled = Unmodelled | Modelled 'a

definition DataFrame :: "pandas \<Rightarrow> pyval \<Rightarrow> dataframe modelled" where
  "DataFrame pd data =
     (case data of
        PNone \<Rightarrow> Modelled (DataFrame_records pd [])
      | PList xs \<Rightarrow>
          (if list_all (\<lambda>x. as_record x \<noteq> None) xs
           then Modelled (DataFrame_records pd (map (\<lambda>x. the (as_record x)) xs))
           else Unmodelled)
      | _ \<Rightarrow> Unmodelled)"

text \<open>\<^verbatim>\<open>df.empty\<close>: one of the two axes has length 0.\<close>

definition empty_df :: "dataframe \<Rightarrow> bool" where
  "empty_df df = (columns df = [] \<or> rows df = [])"

text \<open>The position of a column label, \<open>None\<close> when the frame has no such column.\<close>

fun index_of :: "string \<Rightarrow> string list \<Rightarrow> nat option" where
  "index_of k [] = None"
| "index_of k (c # cs) = (if c = k then Some 0 else map_option Suc (index_of k cs))"

text \<open>
  Two cells are the same key to \<^verbatim>\<open>drop_duplicates\<close> when pandas' hash table takes
  them for the same: in a column of Python objects that is Python's \<^verbatim>\<open>==\<close>, under
  which a boolean, an integer and a float are equal when they are the same number
  (\<^verbatim>\<open>1 == True == 1.0\<close>), with \<^verbatim>\<open>NaN\<close> taken as equal to \<^verbatim>\<open>NaN\<close>; values of
  different kinds are different, \<^verbatim>\<open>None\<close> and \<^verbatim>\<open>NaN\<close> too. In a column of one type
  it is the equality of that type. A list or a dictionary has no hash.
\<close>

fun number :: "pyval \<Rightarrow> rat option" where
  "number (PBool b) = Some (if b then 1 else 0)"
| "number (PInt i) = Some (of_int i)"
| "number (PFloat q) = Some q"
| "number _ = None"

definition py_eq :: "pyval \<Rightarrow> pyval \<Rightarrow> bool" where
  "py_eq a b =
     (case (number a, number b) of
        (Some x, Some y) \<Rightarrow> x = y
      | (None, None) \<Rightarrow> a = b
      | _ \<Rightarrow> False)"

fun hashable :: "pyval \<Rightarrow> bool" where
  "hashable (PList xs) = False"
| "hashable (PDict items) = False"
| "hashable _ = True"

text \<open>The rows whose key is not the key of an earlier row (\<^verbatim>\<open>keep="first"\<close>).\<close>

fun keep_first :: "('r \<Rightarrow> pyval) \<Rightarrow> pyval list \<Rightarrow> 'r list \<Rightarrow> 'r list" where
  "keep_first key seen [] = []"
| "keep_first key seen (r # rs) =
     (if list_ex (py_eq (key r)) seen then keep_first key seen rs
      else r # keep_first key (key r # seen) rs)"

text \<open>
  \<^verbatim>\<open>df.drop_duplicates(subset=k)\<close>: pandas returns a copy of an empty frame before it
  looks at \<open>k\<close>; otherwise a frame without the column raises KeyError, a key that
  has no hash raises TypeError, and a frame whose keys all have one keeps the first
  row of each key.
\<close>

definition drop_duplicates :: "string \<Rightarrow> dataframe \<Rightarrow> error + dataframe" where
  "drop_duplicates k df =
     (if empty_df df then Inr df
      else (case index_of k (columns df) of
              None \<Rightarrow> Inl (KeyError k)
            | Some i \<Rightarrow>
                if list_all (\<lambda>r. hashable (r ! i)) (rows df)
                then Inr (df\<lparr>rows := keep_first (\<lambda>r. r ! i) [] (rows df)\<rparr>)
                else Inl TypeError))"

text \<open>\<^verbatim>\<open>df.rename(columns={a: b})\<close>: a label that is not there is ignored.\<close>

definition rename :: "(string \<times> string) list \<Rightarrow> dataframe \<Rightarrow> dataframe" where
  "rename m df =
     df\<lparr>columns := map (\<lambda>c. case map_of m c of None \<Rightarrow> c | Some c' \<Rightarrow> c') (columns df)\<rparr>"

text \<open>\<^verbatim>\<open>df.reset_index(drop=True)\<close> renumbers the index, which the model does not hold.\<close>

definition reset_index :: "dataframe \<Rightarrow> dataframe" where
  "reset_index df = df"

text \<open>\<^verbatim>\<open>df[k]\<close>: the cells of a column, KeyError when the frame has no such column.\<close>

definition get_column :: "dataframe \<Rightarrow> string \<Rightarrow> error + pyval list" where
  "get_column df k =
     (case index_of k (columns df) of
        None \<Rightarrow> Inl (KeyError k)
      | Some i \<Rightarrow> Inr (map (\<lambda>r. r ! i) (rows df)))"

text \<open>
  \<^verbatim>\<open>df[k] = values\<close> for a series of the frame's own length: the column is replaced
  when the frame has it and appended otherwise.
\<close>

definition set_column :: "dataframe \<Rightarrow> string \<Rightarrow> pyval list \<Rightarrow> dataframe" where
  "set_column df k vs =
     (case index_of k (columns df) of
        None \<Rightarrow> \<lparr>columns = columns df @ [k], rows = map (\<lambda>(r, v). r @ [v]) (zip (rows df) vs)\<rparr>
      | Some i \<Rightarrow> df\<lparr>rows := map (\<lambda>(r, v). r[i := v]) (zip (rows df) vs)\<rparr>)"

text \<open>\<^verbatim>\<open>df.itertuples(index=False)\<close>: the rows, in order.\<close>

definition itertuples :: "dataframe \<Rightarrow> pyval list list" where
  "itertuples df = rows df"

section \<open>The coercions of pandas\<close>

text \<open>
  \<^verbatim>\<open>Series.round(2)\<close> on a float column is numpy's \<^verbatim>\<open>around\<close>, which its
  documentation gives as \<^verbatim>\<open>true_divide(rint(a * 10**decimals), 10**decimals)\<close>:
  a float multiplication, the rounding to the nearest integer (ties to even), a float
  division.
\<close>

definition np_round2 :: "rat \<Rightarrow> rat" where
  "np_round2 x = float64 (of_int (round_half_even (float64 (x * 100))) / 100)"

text \<open>
  \<^verbatim>\<open>pd.to_datetime(col, errors="coerce")\<close>: a cell that cannot be read becomes NaT.
  \<^verbatim>\<open>errors="coerce"\<close> does not cover every exception of the library (pandas 3 raises
  ValueError on a column whose dates carry different UTC offsets): the call raises
  what the library raises at the first position where it does.
\<close>

definition to_datetime :: "pandas \<Rightarrow> pyval list \<Rightarrow> error + pyval list" where
  "to_datetime pd col =
     map_err (\<lambda>i. case parse_datetime pd col i of
                     Inl e \<Rightarrow> Inl e
                   | Inr None \<Rightarrow> Inr PNaT
                   | Inr (Some t) \<Rightarrow> Inr (PTimestamp t))
       [0 ..< length col]"

text \<open>
  \<^verbatim>\<open>pd.to_numeric(col, errors="coerce")\<close>. Each cell is read first: a number and a
  boolean stay, a missing value is NaN, any other cell is the number read from it, or
  NaN when none can be read. While it reads, pandas converts every integer to a float
  as well, and Python raises OverflowError for an integer that rounds to
  \<open>2 ^ 1024\<close> or beyond; \<^verbatim>\<open>errors="coerce"\<close> does not catch it.
\<close>

fun too_large :: "pyval \<Rightarrow> bool" where
  "too_large (PInt i) = (2 ^ 1024 - 2 ^ 970 \<le> \<bar>i\<bar>)"
| "too_large _ = False"

fun to_numeric1 :: "pandas \<Rightarrow> pyval \<Rightarrow> pyval" where
  "to_numeric1 pd (PInt i) = PInt i"
| "to_numeric1 pd (PFloat q) = PFloat q"
| "to_numeric1 pd (PBool b) = PBool b"
| "to_numeric1 pd PNone = PNaN"
| "to_numeric1 pd PNaN = PNaN"
| "to_numeric1 pd v =
     (case parse_number pd v of
        None \<Rightarrow> PNaN
      | Some (Inl i) \<Rightarrow> PInt i
      | Some (Inr q) \<Rightarrow> PFloat q)"

text \<open>
  The series returned has one type. It is a float series when a float or a NaN is
  among the cells read, and when the integers among them fit neither the signed nor
  the unsigned 64-bit range: an integer in it is that float, a boolean is 0.0 or 1.0.
  Otherwise, with an integer among them it is an integer series, a boolean in it being
  0 or 1. Otherwise (booleans only) the cells are as they were.
\<close>

fun fits :: "int \<Rightarrow> int \<Rightarrow> pyval \<Rightarrow> bool" where
  "fits lo hi (PInt i) = (lo \<le> i \<and> i < hi)"
| "fits lo hi _ = True"

definition float_series :: "pyval list \<Rightarrow> bool" where
  "float_series cells =
     (list_ex is_float cells \<or>
      \<not> (list_all (fits (- (2 ^ 63)) (2 ^ 63)) cells \<or> list_all (fits 0 (2 ^ 64)) cells))"

fun float_cell :: "pyval \<Rightarrow> pyval" where
  "float_cell (PInt i) = PFloat (float64 (of_int i))"
| "float_cell (PBool b) = PFloat (if b then 1 else 0)"
| "float_cell v = v"

fun int_cell :: "pyval \<Rightarrow> pyval" where
  "int_cell (PBool b) = PInt (if b then 1 else 0)"
| "int_cell v = v"

definition to_numeric :: "pandas \<Rightarrow> pyval list \<Rightarrow> error + pyval list" where
  "to_numeric pd col =
     (if list_ex too_large col then Inl OverflowError
      else (let cells = map (to_numeric1 pd) col in
            Inr (if float_series cells then map float_cell cells
                 else if list_ex is_int cells then map int_cell cells
                 else cells)))"

text \<open>
  \<^verbatim>\<open>.round(2)\<close> on the series \<^verbatim>\<open>to_numeric\<close> returned: each float is rounded, NaN
  staying NaN; a series of integers or of booleans is left as it is.
\<close>

fun round1 :: "pyval \<Rightarrow> pyval" where
  "round1 (PFloat q) = PFloat (np_round2 q)"
| "round1 v = v"

definition round2 :: "pyval list \<Rightarrow> pyval list" where
  "round2 col = map round1 col"

section \<open>The normalizer\<close>

text \<open>
  \<^verbatim>\<open>
  def procesar_datos_servicios(raw_data: list[dict]) -> pd.DataFrame:
      processed = []
      for servicio in raw_data:
          processed.append({
              "nrocontrato": servicio["id"],
              "fecha": servicio["fecha"],
              "monto": servicio["precioBS"],
              "cicliente": servicio["cliente"]["ci"] if servicio["cliente"] else None,
              "nrocasojuridico": servicio["Caso"]["id"] if servicio["Caso"] else None
          })
      return pd.DataFrame(processed)
  \<close>
  \<open>procesar_servicio\<close> is the body of the loop: the dictionary appended for one
  \<^verbatim>\<open>servicio\<close>, its values computed in the order they are written. The parameter
  \<open>pd\<close> of the functions that follow is the module \<^verbatim>\<open>pd\<close> they call.
\<close>

definition procesar_servicio :: "pyval \<Rightarrow> error + (string \<times> pyval) list" where
  "procesar_servicio servicio =
     bind_err (subscript servicio ''id'') (\<lambda>nrocontrato.
     bind_err (subscript servicio ''fecha'') (\<lambda>fecha.
     bind_err (subscript servicio ''precioBS'') (\<lambda>monto.
     bind_err (subscript servicio ''cliente'') (\<lambda>cliente.
     bind_err (if truthy cliente then subscript cliente ''ci'' else Inr PNone) (\<lambda>cicliente.
     bind_err (subscript servicio ''Caso'') (\<lambda>caso.
     bind_err (if truthy caso then subscript caso ''id'' else Inr PNone) (\<lambda>nrocasojuridico.
     Inr [(''nrocontrato'', nrocontrato), (''fecha'', fecha), (''monto'', monto),
          (''cicliente'', cicliente), (''nrocasojuridico'', nrocasojuridico)])))))))"

definition procesar_datos_servicios :: "pandas \<Rightarrow> pyval \<Rightarrow> error + dataframe" where
  "procesar_datos_servicios pd raw_data =
     bind_err (iterate raw_data) (\<lambda>servicios.
     bind_err (map_err procesar_servicio servicios) (\<lambda>processed.
     Inr (DataFrame_records pd processed)))"

text \<open>
  \<^verbatim>\<open>
  def limpiar_dataframes(df_clientes, df_casos, df_servicios):
      df_clientes = df_clientes.drop_duplicates(subset="ci").reset_index(drop=True)
      df_casos = df_casos.drop_duplicates(subset="id").rename(
          columns={"id": "nrocaso", "materia": "materia"}
      ).reset_index(drop=True)
      df_servicios = df_servicios.drop_duplicates(subset="nrocontrato").reset_index(drop=True)
      df_servicios["fecha"] = pd.to_datetime(df_servicios["fecha"], errors="coerce")
      df_servicios["monto"] = pd.to_numeric(df_servicios["monto"], errors="coerce").round(2)
      return df_clientes, df_casos, df_servicios
  \<close>
\<close>

definition limpiar_dataframes ::
  "pandas \<Rightarrow> dataframe \<Rightarrow> dataframe \<Rightarrow> dataframe \<Rightarrow> error + dataframe \<times> dataframe \<times> dataframe"
where
  "limpiar_dataframes pd df_clientes df_casos df_servicios =
     bind_err (drop_duplicates ''ci'' df_clientes) (\<lambda>d1.
     let df_clientes = reset_index d1 in
     bind_err (drop_duplicates ''id'' df_casos) (\<lambda>d2.
     let df_casos = reset_index (rename [(''id'', ''nrocaso''), (''materia'', ''materia'')] d2) in
     bind_err (drop_duplicates ''nrocontrato'' df_servicios) (\<lambda>d3.
     let df_servicios = reset_index d3 in
     bind_err (get_column df_servicios ''fecha'') (\<lambda>fecha.
     bind_err (to_datetime pd fecha) (\<lambda>fechas.
     let df_servicios = set_column df_servicios ''fecha'' fechas in
     bind_err (get_column df_servicios ''monto'') (\<lambda>monto.
     bind_err (to_numeric pd monto) (\<lambda>montos.
     let df_servicios = set_column df_servicios ''monto'' (round2 montos) in
     Inr (df_clientes, df_casos, df_servicios))))))))"

section \<open>The relational store\<close>

text \<open>
  The three tables the script merges into. A stored row is the list of the values
  inserted, in the column order of the \<^verbatim>\<open>INSERT\<close>; the key column is the first in
  each of the three statements. The store is what a committed transaction has left in
  each table, in insertion order.
\<close>

datatype tabla = Cliente | CasoJuridico | ContratoServicio

type_synonym store = "tabla \<Rightarrow> pyval list list"

text \<open>The number of parameter markers of the statement for a table.\<close>

fun markers :: "tabla \<Rightarrow> nat" where
  "markers Cliente = 3"
| "markers CasoJuridico = 2"
| "markers ContratoServicio = 5"

text \<open>
  SQL's \<^verbatim>\<open>=\<close> in the \<^verbatim>\<open>ON\<close> clause: a comparison with \<^verbatim>\<open>NULL\<close> (Python's
  \<^verbatim>\<open>None\<close>) is never true; two other values are equal when they are the same value
  (the server's collation and its conversions between types are not modelled).
\<close>

definition sql_eq :: "pyval \<Rightarrow> pyval \<Rightarrow> bool" where
  "sql_eq a b = (a \<noteq> PNone \<and> b \<noteq> PNone \<and> a = b)"

text \<open>
  \<^verbatim>\<open>
  MERGE INTO cliente AS target
  USING (VALUES (?, ?, ?)) AS source (ci, nombre, apellido)
  ON target.ci = source.ci
  WHEN NOT MATCHED THEN
      INSERT (ci, nombre, apellido)
      VALUES (source.ci, source.nombre, source.apellido);
  \<close>
  and the same statement for \<^verbatim>\<open>casoJuridico\<close> and \<^verbatim>\<open>contratoServicio\<close>: the row is
  inserted when no stored row of the table has its key, and there is no other branch.
  \<open>key_of\<close> is the key of a row, its first value (a row with no value has none).
\<close>

fun key_of :: "pyval list \<Rightarrow> pyval" where
  "key_of [] = PNone"
| "key_of (k # rest) = k"

definition matched :: "pyval list list \<Rightarrow> pyval list \<Rightarrow> bool" where
  "matched target source = list_ex (\<lambda>r. sql_eq (key_of r) (key_of source)) target"

definition merge_insert :: "tabla \<Rightarrow> pyval list \<Rightarrow> store \<Rightarrow> store" where
  "merge_insert t row s = (if matched (s t) row then s else s(t := s t @ [row]))"

text \<open>
  What is outside the script is a parameter of a run: the endpoint's answers, pandas'
  parsers, and the database server. \<open>connect_error\<close> is the message of the error
  \<^verbatim>\<open>pyodbc.connect\<close> raises, if it does. \<open>execute_error t s row\<close> is the message of the
  error the server answers the statement for table \<open>t\<close> and parameters \<open>row\<close> with when
  the transaction sees the tables \<open>s\<close>, \<open>None\<close> when the statement succeeds: the
  tables' declarations, and so their constraints, are not part of the repository.
\<close>

record entorno =
  post :: "query \<Rightarrow> error + response"
  lib :: pandas
  connect_error :: "string option"
  execute_error :: "tabla \<Rightarrow> store \<Rightarrow> pyval list \<Rightarrow> string option"

text \<open>
  A connection of the driver with autocommit off: the tables as committed, the tables
  as the open transaction sees them, and the number of calls of \<^verbatim>\<open>conn.commit()\<close>.
\<close>

record conexion =
  committed :: store
  working :: store
  commits :: nat

definition connect :: "store \<Rightarrow> conexion" where
  "connect db = \<lparr>committed = db, working = db, commits = 0\<rparr>"

definition commit :: "conexion \<Rightarrow> conexion" where
  "commit c = c\<lparr>committed := working c, commits := Suc (commits c)\<rparr>"

definition rollback :: "conexion \<Rightarrow> conexion" where
  "rollback c = c\<lparr>working := committed c\<rparr>"

text \<open>
  \<^verbatim>\<open>cursor.execute(statement, row)\<close>: the driver refuses a row that does not have one
  value per parameter marker; otherwise the server runs the statement or answers with
  an error. A statement that failed has changed nothing.
\<close>

definition marker_message :: string where
  "marker_message = ''The SQL contains a different number of parameter markers than parameters were supplied''"

definition execute :: "entorno \<Rightarrow> tabla \<Rightarrow> pyval list \<Rightarrow> conexion \<Rightarrow> error option \<times> conexion" where
  "execute env t row c =
     (if length row \<noteq> markers t then (Some (DatabaseError marker_message), c)
      else (case execute_error env t (working c) row of
              Some m \<Rightarrow> (Some (DatabaseError m), c)
            | None \<Rightarrow> (None, c\<lparr>working := merge_insert t row (working c)\<rparr>)))"

text \<open>
  \<^verbatim>\<open>
  for row in df.itertuples(index=False):
      cursor.execute(statement, row)
  \<close>
\<close>

fun execute_all :: "entorno \<Rightarrow> tabla \<Rightarrow> pyval list list \<Rightarrow> conexion \<Rightarrow> error option \<times> conexion" where
  "execute_all env t [] c = (None, c)"
| "execute_all env t (row # rest) c =
     (case execute env t row c of
        (Some e, c') \<Rightarrow> (Some e, c')
      | (None, c') \<Rightarrow> execute_all env t rest c')"

text \<open>
  The body of the \<^verbatim>\<open>with\<close> block of \<^verbatim>\<open>main\<close>: the three loops in the order
  clients, cases, contracts, then \<^verbatim>\<open>conn.commit()\<close>. An exception leaves the block
  where it is raised.
\<close>

definition insertar ::
  "entorno \<Rightarrow> dataframe \<times> dataframe \<times> dataframe \<Rightarrow> conexion \<Rightarrow> error option \<times> conexion"
where
  "insertar env dfs c =
     (case dfs of (df_clientes, df_casos, df_servicios) \<Rightarrow>
      (case execute_all env Cliente (itertuples df_clientes) c of
         (Some e, c1) \<Rightarrow> (Some e, c1)
       | (None, c1) \<Rightarrow>
      (case execute_all env CasoJuridico (itertuples df_casos) c1 of
         (Some e, c2) \<Rightarrow> (Some e, c2)
       | (None, c2) \<Rightarrow>
      (case execute_all env ContratoServicio (itertuples df_servicios) c2 of
         (Some e, c3) \<Rightarrow> (Some e, c3)
       | (None, c3) \<Rightarrow> (None, commit c3)))))"

text \<open>
  What a run leaves: the exception it ended with, if any, the committed tables, and
  the number of calls of \<^verbatim>\<open>conn.commit()\<close>.
\<close>

record resultado =
  raised :: "error option"
  db :: store
  n_commits :: nat

definition guardar_message :: string where
  "guardar_message = ''Error al guardar los datos en la base de datos: ''"

text \<open>
  \<^verbatim>\<open>
  try:
      with pyodbc.connect(DB_CONNECTION_STRING) as conn:
          ...
  except Exception as e:
      raise Exception(f"Error al guardar los datos en la base de datos: {e}")
  \<close>
  Leaving the \<^verbatim>\<open>with\<close> block, the driver's connection ends the transaction: it rolls
  back when the block raised and commits what is open otherwise (after
  \<^verbatim>\<open>conn.commit()\<close> nothing is). An error of \<^verbatim>\<open>pyodbc.connect\<close> is caught by the
  same \<^verbatim>\<open>except\<close>. \<^verbatim>\<open>conn.commit()\<close> itself and the end of the block are
  taken to succeed.
\<close>

definition guardar :: "entorno \<Rightarrow> dataframe \<times> dataframe \<times> dataframe \<Rightarrow> store \<Rightarrow> resultado" where
  "guardar env dfs s =
     (case connect_error env of
        Some m \<Rightarrow> \<lparr>raised = Some (Exception (guardar_message @ m)), db = s, n_commits = 0\<rparr>
      | None \<Rightarrow>
          (case insertar env dfs (connect s) of
             (Some e, c) \<Rightarrow>
               \<lparr>raised = Some (Exception (guardar_message @ str_of e)),
                db = committed (rollback c), n_commits = commits c\<rparr>
           | (None, c) \<Rightarrow>
               \<lparr>raised = None, db = working c, n_commits = commits c\<rparr>))"

section \<open>The run\<close>

text \<open>
  Lines 137 to 147 of \<^verbatim>\<open>main\<close>: the three queries, the three frames, the cleaning.
  \<^verbatim>\<open>
  data_clientes = consulta_graphql(QUERY_CLIENTES)["allClientes"]
  data_casos = consulta_graphql(QUERY_CASOS)["allCasos"]
  data_servicios = consulta_graphql(QUERY_SERVICIOS)["allContratos"]
  df_clientes = pd.DataFrame(data_clientes)
  df_casos = pd.DataFrame(data_casos)
  df_servicios = procesar_datos_servicios(data_servicios)
  df_clientes, df_casos, df_servicios = limpiar_dataframes(df_clientes, df_casos, df_servicios)
  \<close>
\<close>

definition obtener :: "entorno \<Rightarrow> query \<Rightarrow> string \<Rightarrow> error + pyval" where
  "obtener env q campo = bind_err (consulta_graphql (post env) q) (\<lambda>d. subscript d campo)"

definition normalizar ::
  "pandas \<Rightarrow> pyval \<Rightarrow> pyval \<Rightarrow> pyval \<Rightarrow> (error + dataframe \<times> dataframe \<times> dataframe) modelled"
where
  "normalizar pd data_clientes data_casos data_servicios =
     (case DataFrame pd data_clientes of
        Unmodelled \<Rightarrow> Unmodelled
      | Modelled df_clientes \<Rightarrow>
     (case DataFrame pd data_casos of
        Unmodelled \<Rightarrow> Unmodelled
      | Modelled df_casos \<Rightarrow>
          Modelled (bind_err (procesar_datos_servicios pd data_servicios) (\<lambda>df_servicios.
                    limpiar_dataframes pd df_clientes df_casos df_servicios))))"

text \<open>
  \<^verbatim>\<open>main\<close>, on the tables \<open>s\<close> the database holds when the run starts. An exception
  raised before the \<^verbatim>\<open>try\<close> leaves \<^verbatim>\<open>main\<close> as it is, the database untouched.
\<close>

definition main :: "entorno \<Rightarrow> store \<Rightarrow> resultado modelled" where
  "main env s =
     (case obtener env QUERY_CLIENTES ''allClientes'' of
        Inl e \<Rightarrow> Modelled \<lparr>raised = Some e, db = s, n_commits = 0\<rparr>
      | Inr data_clientes \<Rightarrow>
     (case obtener env QUERY_CASOS ''allCasos'' of
        Inl e \<Rightarrow> Modelled \<lparr>raised = Some e, db = s, n_commits = 0\<rparr>
      | Inr data_casos \<Rightarrow>
     (case obtener env QUERY_SERVICIOS ''allContratos'' of
        Inl e \<Rightarrow> Modelled \<lparr>raised = Some e, db = s, n_commits = 0\<rparr>
      | Inr data_servicios \<Rightarrow>
     (case normalizar (lib env) data_clientes data_casos data_servicios of
        Unmodelled \<Rightarrow> Unmodelled
      | Modelled (Inl e) \<Rightarrow> Modelled \<lparr>raised = Some e, db = s, n_commits = 0\<rparr>
      | Modelled (Inr dfs) \<Rightarrow> Modelled (guardar env dfs s)))))"

section \<open>Predicates of the statements\<close>

text \<open>
  \<open>fresh_rows old new\<close>: each row of \<open>new\<close>, in turn, has a key that no row of \<open>old\<close>
  and no earlier row of \<open>new\<close> has. \<open>only_appends s s'\<close>: every table of \<open>s'\<close> is the
  table of \<open>s\<close> followed by such rows. No row of \<open>s\<close> is changed, moved or removed.
\<close>

fun fresh_rows :: "pyval list list \<Rightarrow> pyval list list \<Rightarrow> bool" where
  "fresh_rows old [] = True"
| "fresh_rows old (r # new) = (\<not> matched old r \<and> fresh_rows (old @ [r]) new)"

definition only_appends :: "store \<Rightarrow> store \<Rightarrow> bool" where
  "only_appends s s' = (\<forall>t. \<exists>new. s' t = s t @ new \<and> fresh_rows (s t) new)"

text \<open>
  A sequence of runs, each with its own endpoint, parsers and server, each starting
  on the tables the run before it left.
\<close>

fun corridas :: "entorno list \<Rightarrow> store \<Rightarrow> store modelled" where
  "corridas [] s = Modelled s"
| "corridas (env # envs) s =
     (case main env s of Unmodelled \<Rightarrow> Unmodelled | Modelled r \<Rightarrow> corridas envs (db r))"

text \<open>
  Modelled from the spec: the declaration of the three tables is not in the repository.
  The spec's data model gives each table a primary key, and a primary key column takes
  no \<^verbatim>\<open>NULL\<close>: the server answers a statement whose key parameter is \<^verbatim>\<open>None\<close>
  with an error.
\<close>

definition keys_not_null :: "entorno \<Rightarrow> bool" where
  "keys_not_null env = (\<forall>t w rest. execute_error env t w (PNone # rest) \<noteq> None)"

text \<open>No two keys of a list are the same key to \<^verbatim>\<open>drop_duplicates\<close>.\<close>

fun distinct_keys :: "pyval list \<Rightarrow> bool" where
  "distinct_keys [] = True"
| "distinct_keys (k # ks) = (\<not> list_ex (py_eq k) ks \<and> distinct_keys ks)"

text \<open>The columns of the frame \<^verbatim>\<open>procesar_datos_servicios\<close> builds from a list that is not empty.\<close>

definition columnas_servicios :: "string list" where
  "columnas_servicios = [''nrocontrato'', ''fecha'', ''monto'', ''cicliente'', ''nrocasojuridico'']"

section \<open>Scenarios\<close>

text \<open>A response with status 200 and the given body, and an endpoint that gives it to every query.\<close>

definition ok200 :: "pyval \<Rightarrow> error + response" where
  "ok200 j = Inr \<lparr>status_code = 200, json_body = Some j\<rparr>"

definition responde :: "pyval \<Rightarrow> query \<Rightarrow> error + response" where
  "responde j q = ok200 j"

text \<open>An endpoint that answers the three queries with the three given lists.\<close>

definition fuente :: "pyval \<Rightarrow> pyval \<Rightarrow> pyval \<Rightarrow> query \<Rightarrow> error + response" where
  "fuente clientes casos contratos q =
     (case q of
        QUERY_CLIENTES \<Rightarrow> ok200 (PDict [(''data'', PDict [(''allClientes'', clientes)])])
      | QUERY_CASOS \<Rightarrow> ok200 (PDict [(''data'', PDict [(''allCasos'', casos)])])
      | QUERY_SERVICIOS \<Rightarrow> ok200 (PDict [(''data'', PDict [(''allContratos'', contratos)])]))"

text \<open>
  The records of the spec's scenario: the client A1 (under a given name), the case C1,
  and the contract K1 of client A1 in case C1, dated 2024-03-01, for 150.555.
\<close>

definition cliente_a1 :: "string \<Rightarrow> pyval" where
  "cliente_a1 nombre =
     PDict [(''ci'', PStr ''A1''), (''nombre'', PStr nombre), (''apellido'', PStr ''Ruiz'')]"

definition caso_c1 :: pyval where
  "caso_c1 = PDict [(''id'', PStr ''C1''), (''meteria'', PStr ''civil'')]"

definition contrato_k1 :: pyval where
  "contrato_k1 =
     PDict [(''id'', PStr ''K1''), (''fecha'', PStr ''2024-03-01''),
            (''precioBS'', PFloat (float64 (150555 / 1000))),
            (''cliente'', PDict [(''ci'', PStr ''A1'')]), (''Caso'', PDict [(''id'', PStr ''C1'')])]"

text \<open>
  Parsers that read nothing, and parsers that read the date 2024-03-01 (midnight, in
  nanoseconds since 1970) and nothing else.
\<close>

definition reads_nothing :: pandas where
  "reads_nothing =
     \<lparr>infer_string = True, parse_datetime = (\<lambda>col i. Inr None), parse_number = (\<lambda>v. None)\<rparr>"

definition lee_fecha :: pandas where
  "lee_fecha =
     \<lparr>infer_string = True,
      parse_datetime =
        (\<lambda>col i. if i < length col \<and> col ! i = PStr ''2024-03-01''
                 then Inr (Some 1709251200000000000) else Inr None),
      parse_number = (\<lambda>v. None)\<rparr>"

text \<open>The empty database.\<close>

definition vacia :: store where
  "vacia = (\<lambda>t. [])"

text \<open>
  A server that refuses a null key and accepts every other statement, and a server
  that answers every statement for one table with the same error.
\<close>

definition servidor :: "tabla \<Rightarrow> store \<Rightarrow> pyval list \<Rightarrow> string option" where
  "servidor t w row = (if key_of row = PNone then Some ''Cannot insert the value NULL'' else None)"

definition servidor_caido :: "tabla \<Rightarrow> tabla \<Rightarrow> store \<Rightarrow> pyval list \<Rightarrow> string option" where
  "servidor_caido malo t w row = (if t = malo then Some ''Communication link failure'' else None)"

text \<open>An endpoint that answers every query with status 200 and a GraphQL error body.\<close>

definition errores_200 :: entorno where
  "errores_200 =
     \<lparr>post = responde (PDict [(''errors'', PList [PStr ''boom''])]),
      lib = reads_nothing,
      connect_error = None,
      execute_error = servidor\<rparr>"

text \<open>The spec's scenario, the client under a given name.\<close>

definition escenario :: "string \<Rightarrow> entorno" where
  "escenario nombre =
     \<lparr>post = fuente (PList [cliente_a1 nombre]) (PList [caso_c1]) (PList [contrato_k1]),
      lib = lee_fecha,
      connect_error = None,
      execute_error = servidor\<rparr>"

text \<open>The scenario with no contract at the source.\<close>

definition sin_contratos :: entorno where
  "sin_contratos =
     \<lparr>post = fuente (PList [cliente_a1 ''Ana'']) (PList [caso_c1]) (PList []),
      lib = lee_fecha,
      connect_error = None,
      execute_error = servidor\<rparr>"

text \<open>The scenario on a server that fails on one table.\<close>

definition escenario_caido :: "tabla \<Rightarrow> entorno" where
  "escenario_caido malo =
     \<lparr>post = fuente (PList [cliente_a1 ''Ana'']) (PList [caso_c1]) (PList [contrato_k1]),
      lib = lee_fecha,
      connect_error = None,
      execute_error = servidor_caido malo\<rparr>"

text \<open>The rows of the scenario.\<close>

definition fila_a1 :: "pyval list" where
  "fila_a1 = [PStr ''A1'', PStr ''Ana'', PStr ''Ruiz'']"

definition fila_c1 :: "pyval list" where
  "fila_c1 = [PStr ''C1'', PStr ''civil'']"

definition fila_k1 :: "pyval list" where
  "fila_k1 = [PStr ''K1'', PTimestamp 1709251200000000000, PFloat (float64 (15056 / 100)),
              PStr ''A1'', PStr ''C1'']"

text \<open>The frames the scenario is normalized to.\<close>

definition marcos :: "string \<Rightarrow> dataframe \<times> dataframe \<times> dataframe" where
  "marcos nombre =
     (\<lparr>columns = [''ci'', ''nombre'', ''apellido''],
       rows = [[PStr ''A1'', PStr nombre, PStr ''Ruiz'']]\<rparr>,
      \<lparr>columns = [''nrocaso'', ''meteria''], rows = [fila_c1]\<rparr>,
      \<lparr>columns = columnas_servicios, rows = [fila_k1]\<rparr>)"

text \<open>
  Frames as \<^verbatim>\<open>pd.DataFrame\<close> and \<^verbatim>\<open>procesar_datos_servicios\<close> build them: the
  client A1 twice under two names, the contract K1, and four cases whose identifiers
  are \<^verbatim>\<open>1\<close>, \<^verbatim>\<open>True\<close>, \<^verbatim>\<open>1.0\<close> and \<^verbatim>\<open>'a'\<close>.
\<close>

definition marco_clientes_repetidos :: dataframe where
  "marco_clientes_repetidos =
     \<lparr>columns = [''ci'', ''nombre'', ''apellido''],
      rows = [fila_a1, [PStr ''A1'', PStr ''Anabel'', PStr ''Ruiz'']]\<rparr>"

definition marco_casos_mixtos :: dataframe where
  "marco_casos_mixtos =
     \<lparr>columns = [''id'', ''meteria''],
      rows = [[PInt 1, PStr ''civil''], [PBool True, PStr ''penal''],
              [PFloat 1, PStr ''laboral''], [PStr ''a'', PStr ''familia'']]\<rparr>"

definition marco_servicios :: dataframe where
  "marco_servicios =
     \<lparr>columns = columnas_servicios,
      rows = [[PStr ''K1'', PStr ''2024-03-01'', PFloat (float64 (150555 / 1000)),
               PStr ''A1'', PStr ''C1'']]\<rparr>"

text \<open>
  Two contracts of client A1 in case C1 whose dates carry different UTC offsets: K4 at
  09:00 of 2024-03-01 one hour east of UTC, K5 at 09:00 of the same day four hours west.
\<close>

definition contrato_k4 :: pyval where
  "contrato_k4 =
     PDict [(''id'', PStr ''K4''), (''fecha'', PStr ''2024-03-01T09:00:00+01:00''),
            (''precioBS'', PInt 100),
            (''cliente'', PDict [(''ci'', PStr ''A1'')]), (''Caso'', PDict [(''id'', PStr ''C1'')])]"

definition contrato_k5 :: pyval where
  "contrato_k5 =
     PDict [(''id'', PStr ''K5''), (''fecha'', PStr ''2024-03-01T09:00:00-04:00''),
            (''precioBS'', PInt 100),
            (''cliente'', PDict [(''ci'', PStr ''A1'')]), (''Caso'', PDict [(''id'', PStr ''C1'')])]"

text \<open>
  The parsers of pandas 3 on these dates: each is read (as its instant, in
  nanoseconds since 1970) in a column that holds one of the two offsets only, and
  \<^verbatim>\<open>pd.to_datetime\<close> raises ValueError on a column that holds both, with
  \<^verbatim>\<open>errors="coerce"\<close> too.
\<close>

definition lee_husos :: pandas where
  "lee_husos =
     \<lparr>infer_string = True,
      parse_datetime =
        (\<lambda>col i.
           if PStr ''2024-03-01T09:00:00+01:00'' \<in> set col \<and>
              PStr ''2024-03-01T09:00:00-04:00'' \<in> set col
           then Inl ValueError
           else if i < length col \<and> col ! i = PStr ''2024-03-01T09:00:00+01:00''
           then Inr (Some 1709280000000000000)
           else if i < length col \<and> col ! i = PStr ''2024-03-01T09:00:00-04:00''
           then Inr (Some 1709298000000000000)
           else Inr None),
      parse_number = (\<lambda>v. None)\<rparr>"

text \<open>The scenario with the given contracts in place of K1, read by these parsers.\<close>

definition escenario_husos :: "pyval list \<Rightarrow> entorno" where
  "escenario_husos contratos =
     \<lparr>post = fuente (PList [cliente_a1 ''Ana'']) (PList [caso_c1]) (PList contratos),
      lib = lee_husos,
      connect_error = None,
      execute_error = servidor\<rparr>"

definition fila_k4 :: "pyval list" where
  "fila_k4 = [PStr ''K4'', PTimestamp 1709280000000000000, PInt 100, PStr ''A1'', PStr ''C1'']"

definition fila_k5 :: "pyval list" where
  "fila_k5 = [PStr ''K5'', PTimestamp 1709298000000000000, PInt 100, PStr ''A1'', PStr ''C1'']"

text \<open>
  A frame of contracts whose one amount is an integer too large for a float, as
  \<^verbatim>\<open>limpiar_dataframes\<close> may be given it, and the frames of the client A1 and of the
  case C1 before the cleaning.
\<close>

definition marco_desborde :: dataframe where
  "marco_desborde =
     \<lparr>columns = columnas_servicios,
      rows = [[PStr ''K6'', PStr ''2024-03-01'', PInt (10 ^ 400), PStr ''A1'', PStr ''C1'']]\<rparr>"

definition marco_clientes :: dataframe where
  "marco_clientes = \<lparr>columns = [''ci'', ''nombre'', ''apellido''], rows = [fila_a1]\<rparr>"

definition marco_casos :: dataframe where
  "marco_casos = \<lparr>columns = [''id'', ''meteria''], rows = [fila_c1]\<rparr>"

text \<open>
  A source whose identifiers are integers: the client 7, the case 9, the contract K7
  of client 7 in case 9, and the contract K3 with neither client nor case.
\<close>

definition cliente_7 :: pyval where
  "cliente_7 = PDict [(''ci'', PInt 7), (''nombre'', PStr ''Ana''), (''apellido'', PStr ''Ruiz'')]"

definition caso_9 :: pyval where
  "caso_9 = PDict [(''id'', PInt 9), (''meteria'', PStr ''civil'')]"

definition contrato_k7 :: pyval where
  "contrato_k7 =
     PDict [(''id'', PStr ''K7''), (''fecha'', PStr ''2024-03-01''), (''precioBS'', PInt 100),
            (''cliente'', PDict [(''ci'', PInt 7)]), (''Caso'', PDict [(''id'', PInt 9)])]"

definition contrato_huerfano :: pyval where
  "contrato_huerfano =
     PDict [(''id'', PStr ''K3''), (''fecha'', PStr ''2024-03-01''), (''precioBS'', PInt 100),
            (''cliente'', PNone), (''Caso'', PNone)]"

text \<open>
  A server that, like the first, refuses a null key, and that refuses a float
  parameter that is not a number as well (SQL Server has no such float).
\<close>

definition servidor_estricto :: "tabla \<Rightarrow> store \<Rightarrow> pyval list \<Rightarrow> string option" where
  "servidor_estricto t w row =
     (if key_of row = PNone then Some ''Cannot insert the value NULL''
      else if PNaN \<in> set row then Some ''The supplied value is not a valid instance of data type float''
      else None)"

text \<open>
  This source on a given server, read by a pandas that infers string columns or by
  one that does not.
\<close>

definition escenario_huerfano ::
  "bool \<Rightarrow> (tabla \<Rightarrow> store \<Rightarrow> pyval list \<Rightarrow> string option) \<Rightarrow> entorno"
where
  "escenario_huerfano cadenas srv =
     \<lparr>post = fuente (PList [cliente_7]) (PList [caso_9]) (PList [contrato_k7, contrato_huerfano]),
      lib = lee_fecha\<lparr>infer_string := cadenas\<rparr>,
      connect_error = None,
      execute_error = srv\<rparr>"

text \<open>The rows of this source, as the cleaning leaves them.\<close>

definition fila_7 :: "pyval list" where
  "fila_7 = [PInt 7, PStr ''Ana'', PStr ''Ruiz'']"

definition fila_9 :: "pyval list" where
  "fila_9 = [PInt 9, PStr ''civil'']"

definition fila_k7 :: "pyval list" where
  "fila_k7 = [PStr ''K7'', PTimestamp 1709251200000000000, PInt 100, PFloat 7, PFloat 9]"

definition fila_k3 :: "pyval list" where
  "fila_k3 = [PStr ''K3'', PTimestamp 1709251200000000000, PInt 100, PNaN, PNaN]"

text \<open>
  The contract K8 of client A1 in case C1, whose references are strings, and its row.
\<close>

definition contrato_k8 :: pyval where
  "contrato_k8 =
     PDict [(''id'', PStr ''K8''), (''fecha'', PStr ''2024-03-01''), (''precioBS'', PInt 100),
            (''cliente'', PDict [(''ci'', PStr ''A1'')]), (''Caso'', PDict [(''id'', PStr ''C1'')])]"

definition fila_k8 :: "pyval list" where
  "fila_k8 = [PStr ''K8'', PTimestamp 1709251200000000000, PInt 100, PStr ''A1'', PStr ''C1'']"

section \<open>Lemmas on the query client\<close>

lemma consulta_graphql_200:
  "endpoint q = Inr r \<Longrightarrow> status_code r = 200 \<Longrightarrow> json_body r = Some j \<Longrightarrow>
   consulta_graphql endpoint q = subscript j ''data''"
  by (simp add: consulta_graphql_def)

lemma main_first_query_fails:
  "obtener env QUERY_CLIENTES ''allClientes'' = Inl e \<Longrightarrow>
   main env s = Modelled \<lparr>raised = Some e, db = s, n_commits = 0\<rparr>"
  by (simp add: main_def)

lemma obtener_fuente:
  "post env = fuente a b c \<Longrightarrow>
   obtener env QUERY_CLIENTES ''allClientes'' = Inr a \<and>
   obtener env QUERY_CASOS ''allCasos'' = Inr b \<and>
   obtener env QUERY_SERVICIOS ''allContratos'' = Inr c"
  by (simp add: obtener_def consulta_graphql_def fuente_def ok200_def bind_err_def)

lemma main_fuente:
  "post env = fuente a b c \<Longrightarrow>
   main env s =
     (case normalizar (lib env) a b c of
        Unmodelled \<Rightarrow> Unmodelled
      | Modelled (Inl e) \<Rightarrow> Modelled \<lparr>raised = Some e, db = s, n_commits = 0\<rparr>
      | Modelled (Inr dfs) \<Rightarrow> Modelled (guardar env dfs s))"
  by (simp add: main_def obtener_fuente)

section \<open>Lemmas on the store\<close>

lemma matched_append: "matched (a @ b) r = (matched a r \<or> matched b r)"
  by (simp add: matched_def)

lemma fresh_rows_append:
  "fresh_rows old (n1 @ n2) = (fresh_rows old n1 \<and> fresh_rows (old @ n1) n2)"
  by (induction n1 arbitrary: old) auto

lemma only_appends_refl: "only_appends s s"
  by (simp add: only_appends_def)

lemma only_appends_trans:
  assumes "only_appends s s'" and "only_appends s' s''"
  shows "only_appends s s''"
  unfolding only_appends_def
proof
  fix t
  from assms(1) obtain n1 where n1: "s' t = s t @ n1" "fresh_rows (s t) n1"
    unfolding only_appends_def by blast
  from assms(2) obtain n2 where n2: "s'' t = s' t @ n2" "fresh_rows (s' t) n2"
    unfolding only_appends_def by blast
  have "s'' t = s t @ (n1 @ n2)" "fresh_rows (s t) (n1 @ n2)"
    using n1 n2 by (simp_all add: fresh_rows_append)
  then show "\<exists>new. s'' t = s t @ new \<and> fresh_rows (s t) new"
    by blast
qed

lemma merge_insert_appends: "only_appends s (merge_insert t row s)"
proof (cases "matched (s t) row")
  case True
  then show ?thesis by (simp add: merge_insert_def only_appends_refl)
next
  case False
  show ?thesis
    unfolding only_appends_def
  proof
    fix u
    show "\<exists>new. merge_insert t row s u = s u @ new \<and> fresh_rows (s u) new"
    proof (cases "u = t")
      case True
      with False have "merge_insert t row s u = s u @ [row]" "fresh_rows (s u) [row]"
        by (simp_all add: merge_insert_def)
      then show ?thesis by blast
    next
      case ne: False
      with False have "merge_insert t row s u = s u @ []" "fresh_rows (s u) []"
        by (simp_all add: merge_insert_def)
      then show ?thesis by blast
    qed
  qed
qed

lemma matched_mono:
  assumes "only_appends w w'" and "matched (w t) row"
  shows "matched (w' t) row"
proof -
  from assms(1) obtain new where "w' t = w t @ new" unfolding only_appends_def by blast
  with assms(2) show ?thesis by (simp add: matched_append)
qed

lemma find_append_Some: "find P xs = Some x \<Longrightarrow> find P (xs @ ys) = Some x"
  by (induction xs) (auto split: if_splits)

lemma find_only_appends:
  assumes "only_appends s s'" and "find P (s t) = Some row"
  shows "find P (s' t) = Some row"
proof -
  from assms(1) obtain new where "s' t = s t @ new" unfolding only_appends_def by blast
  with assms(2) show ?thesis by (simp add: find_append_Some)
qed

section \<open>Lemmas on the statements and the loops\<close>

lemma execute_appends:
  "execute env t row c = (res, c') \<Longrightarrow>
   only_appends (working c) (working c') \<and> committed c' = committed c \<and> commits c' = commits c"
  by (auto simp: execute_def only_appends_refl merge_insert_appends split: if_splits option.splits)

lemma execute_all_appends:
  "execute_all env t rs c = (res, c') \<Longrightarrow>
   only_appends (working c) (working c') \<and> committed c' = committed c \<and> commits c' = commits c"
proof (induction rs arbitrary: c)
  case Nil
  then show ?case by (simp add: only_appends_refl)
next
  case (Cons row rest)
  obtain r1 c1 where e: "execute env t row c = (r1, c1)" by (cases "execute env t row c")
  note a = execute_appends[OF e]
  show ?case
  proof (cases r1)
    case None
    with Cons.prems e have "execute_all env t rest c1 = (res, c')" by simp
    from Cons.IH[OF this] a show ?thesis by (auto intro: only_appends_trans)
  next
    case (Some x)
    with Cons.prems e have "c' = c1" by simp
    with a show ?thesis by simp
  qed
qed

lemma execute_error_message:
  "execute env t row c = (Some e, c') \<Longrightarrow>
   \<exists>m. e = DatabaseError m \<and> (m = marker_message \<or> (\<exists>w. execute_error env t w row = Some m))"
  by (auto simp: execute_def split: if_splits option.splits)

lemma execute_all_error_message:
  "execute_all env t rs c = (Some e, c') \<Longrightarrow>
   \<exists>m. e = DatabaseError m \<and>
       (m = marker_message \<or> (\<exists>w row. row \<in> set rs \<and> execute_error env t w row = Some m))"
proof (induction rs arbitrary: c)
  case Nil
  then show ?case by simp
next
  case (Cons r rest)
  obtain r1 c1 where e: "execute env t r c = (r1, c1)" by (cases "execute env t r c")
  show ?case
  proof (cases r1)
    case None
    with Cons.prems e have "execute_all env t rest c1 = (Some e, c')" by simp
    from Cons.IH[OF this] show ?thesis by auto
  next
    case (Some x)
    with Cons.prems e have "execute env t r c = (Some e, c')" by simp
    from execute_error_message[OF this] show ?thesis by auto
  qed
qed

lemma matched_after_merge:
  "key_of row \<noteq> PNone \<Longrightarrow> matched (merge_insert t row w t) row"
  by (simp add: merge_insert_def matched_append) (simp add: matched_def sql_eq_def)

lemma execute_ok_matched:
  assumes "execute env t row c = (None, c')" and "key_of row \<noteq> PNone"
  shows "matched (working c' t) row"
  using assms by (auto simp: execute_def matched_after_merge split: if_splits option.splits)

lemma execute_all_ok_matched:
  "execute_all env t rs c = (None, c') \<Longrightarrow> row \<in> set rs \<Longrightarrow> key_of row \<noteq> PNone \<Longrightarrow>
   matched (working c' t) row"
proof (induction rs arbitrary: c)
  case Nil
  then show ?case by simp
next
  case (Cons r rest)
  obtain r1 c1 where e: "execute env t r c = (r1, c1)" by (cases "execute env t r c")
  with Cons.prems(1) have r1: "r1 = None" and rest: "execute_all env t rest c1 = (None, c')"
    by (auto split: option.splits)
  show ?case
  proof (cases "row = r")
    case True
    with e r1 Cons.prems(3) have "matched (working c1 t) row" by (simp add: execute_ok_matched)
    with execute_all_appends[OF rest] show ?thesis by (auto intro: matched_mono)
  next
    case False
    with Cons.prems(2) have "row \<in> set rest" by simp
    from Cons.IH[OF rest this Cons.prems(3)] show ?thesis .
  qed
qed

lemma key_of_PNone: "row \<noteq> [] \<Longrightarrow> key_of row = PNone \<Longrightarrow> \<exists>rest. row = PNone # rest"
  by (cases row) auto

lemma markers_pos: "0 < markers t"
  by (cases t) auto

lemma execute_matched_unchanged:
  assumes "keys_not_null env" and "key_of row \<noteq> PNone \<longrightarrow> matched (working c t) row"
    and "execute env t row c = (res, c')"
  shows "c' = c"
proof (cases "length row \<noteq> markers t")
  case True
  with assms(3) show ?thesis by (simp add: execute_def)
next
  case len: False
  then have ne: "row \<noteq> []" using markers_pos[of t] by auto
  show ?thesis
  proof (cases "execute_error env t (working c) row")
    case (Some m)
    with len assms(3) show ?thesis by (simp add: execute_def)
  next
    case None
    have "key_of row \<noteq> PNone"
    proof
      assume "key_of row = PNone"
      with ne obtain rest where "row = PNone # rest" using key_of_PNone by blast
      moreover from assms(1) have "execute_error env t (working c) (PNone # rest) \<noteq> None"
        unfolding keys_not_null_def by blast
      ultimately show False using None by simp
    qed
    with assms(2) have "matched (working c t) row" by simp
    with len None assms(3) show ?thesis by (simp add: execute_def merge_insert_def)
  qed
qed

lemma execute_all_matched_unchanged:
  "keys_not_null env \<Longrightarrow>
   (\<And>row. row \<in> set rs \<Longrightarrow> key_of row \<noteq> PNone \<Longrightarrow> matched (working c t) row) \<Longrightarrow>
   execute_all env t rs c = (res, c') \<Longrightarrow> c' = c"
proof (induction rs arbitrary: c)
  case Nil
  then show ?case by simp
next
  case (Cons r rest)
  obtain r1 c1 where e: "execute env t r c = (r1, c1)" by (cases "execute env t r c")
  have c1: "c1 = c"
    using Cons.prems(1) _ e by (rule execute_matched_unchanged) (simp add: Cons.prems(2))
  show ?case
  proof (cases r1)
    case None
    with e Cons.prems(3) c1 have "execute_all env t rest c = (res, c')" by simp
    with Cons.IH[OF Cons.prems(1), of c] Cons.prems(2) show ?thesis by simp
  next
    case (Some x)
    with e Cons.prems(3) c1 show ?thesis by simp
  qed
qed

section \<open>Lemmas on the database step\<close>

lemma insertar_steps:
  assumes "insertar env (dfc, dfk, dfs) c = (res, c')"
  shows "(\<exists>e c1. res = Some e \<and> c' = c1 \<and>
            execute_all env Cliente (itertuples dfc) c = (Some e, c1)) \<or>
         (\<exists>e c1 c2. res = Some e \<and> c' = c2 \<and>
            execute_all env Cliente (itertuples dfc) c = (None, c1) \<and>
            execute_all env CasoJuridico (itertuples dfk) c1 = (Some e, c2)) \<or>
         (\<exists>e c1 c2 c3. res = Some e \<and> c' = c3 \<and>
            execute_all env Cliente (itertuples dfc) c = (None, c1) \<and>
            execute_all env CasoJuridico (itertuples dfk) c1 = (None, c2) \<and>
            execute_all env ContratoServicio (itertuples dfs) c2 = (Some e, c3)) \<or>
         (\<exists>c1 c2 c3. res = None \<and> c' = commit c3 \<and>
            execute_all env Cliente (itertuples dfc) c = (None, c1) \<and>
            execute_all env CasoJuridico (itertuples dfk) c1 = (None, c2) \<and>
            execute_all env ContratoServicio (itertuples dfs) c2 = (None, c3))"
  using assms unfolding insertar_def
  by (auto split: prod.splits option.splits)

lemma insertar_appends:
  assumes "insertar env dfs c = (res, c')"
  shows "only_appends (working c) (working c')"
    and "res \<noteq> None \<Longrightarrow> committed c' = committed c \<and> commits c' = commits c"
    and "res = None \<Longrightarrow> committed c' = working c' \<and> commits c' = Suc (commits c)"
proof -
  obtain dfc dfk dfs' where d: "dfs = (dfc, dfk, dfs')" by (cases dfs) auto
  note st = insertar_steps[OF assms[unfolded d]]
  show "only_appends (working c) (working c')"
    using st by (auto dest!: execute_all_appends simp: commit_def intro: only_appends_trans)
  show "res \<noteq> None \<Longrightarrow> committed c' = committed c \<and> commits c' = commits c"
    using st by (auto dest!: execute_all_appends)
  show "res = None \<Longrightarrow> committed c' = working c' \<and> commits c' = Suc (commits c)"
    using st by (auto dest!: execute_all_appends simp: commit_def)
qed

lemma insertar_error_message:
  assumes "insertar env dfs c = (Some e, c')"
  shows "\<exists>m. e = DatabaseError m \<and>
             (m = marker_message \<or> (\<exists>t w row. execute_error env t w row = Some m))"
proof -
  obtain dfc dfk dfs' where d: "dfs = (dfc, dfk, dfs')" by (cases dfs) auto
  from insertar_steps[OF assms[unfolded d]]
  obtain t rs c0 c1 where "execute_all env t rs c0 = (Some e, c1)" by auto
  from execute_all_error_message[OF this] show ?thesis by blast
qed

lemma guardar_cases:
  "(raised (guardar env dfs s) \<noteq> None \<and> db (guardar env dfs s) = s \<and>
    n_commits (guardar env dfs s) = 0) \<or>
   (raised (guardar env dfs s) = None \<and> only_appends s (db (guardar env dfs s)) \<and>
    n_commits (guardar env dfs s) = 1 \<and> connect_error env = None \<and>
    (\<exists>c. insertar env dfs (connect s) = (None, c) \<and> db (guardar env dfs s) = working c))"
proof (cases "connect_error env")
  case (Some m)
  then show ?thesis by (simp add: guardar_def)
next
  case None
  obtain res c where i: "insertar env dfs (connect s) = (res, c)"
    by (cases "insertar env dfs (connect s)")
  note a = insertar_appends[OF i]
  show ?thesis
  proof (cases res)
    case n: None
    with a i None show ?thesis by (simp add: guardar_def connect_def)
  next
    case (Some e)
    with a i None show ?thesis by (simp add: guardar_def connect_def rollback_def)
  qed
qed

lemma guardar_twice:
  assumes "keys_not_null env"
  shows "db (guardar env dfs (db (guardar env dfs s))) = db (guardar env dfs s)"
proof -
  let ?r = "guardar env dfs s"
  obtain dfc dfk dfs' where d: "dfs = (dfc, dfk, dfs')" by (cases dfs) auto
  from guardar_cases[of env dfs s] show ?thesis
  proof
    assume "raised ?r \<noteq> None \<and> db ?r = s \<and> n_commits ?r = 0"
    then show ?thesis by simp
  next
    assume "raised ?r = None \<and> only_appends s (db ?r) \<and> n_commits ?r = 1 \<and>
      connect_error env = None \<and>
      (\<exists>c. insertar env dfs (connect s) = (None, c) \<and> db ?r = working c)"
    then obtain c where c: "insertar env (dfc, dfk, dfs') (connect s) = (None, c)"
      "db ?r = working c"
      using d by auto
    let ?w = "db ?r"
    from insertar_steps[OF c(1)] obtain c1 c2 c3 where
      cc: "c = commit c3" and
      e1: "execute_all env Cliente (itertuples dfc) (connect s) = (None, c1)" and
      e2: "execute_all env CasoJuridico (itertuples dfk) c1 = (None, c2)" and
      e3: "execute_all env ContratoServicio (itertuples dfs') c2 = (None, c3)" by auto
    have w: "?w = working c3" using c(2) cc by (simp add: commit_def)
    have a2: "only_appends (working c1) (working c2)" using execute_all_appends[OF e2] by simp
    have a3: "only_appends (working c2) (working c3)" using execute_all_appends[OF e3] by simp
    have m1: "matched (?w Cliente) row"
      if "row \<in> set (itertuples dfc)" "key_of row \<noteq> PNone" for row
      using execute_all_ok_matched[OF e1 that] a2 a3 w by (auto intro: matched_mono)
    have m2: "matched (?w CasoJuridico) row"
      if "row \<in> set (itertuples dfk)" "key_of row \<noteq> PNone" for row
      using execute_all_ok_matched[OF e2 that] a3 w by (auto intro: matched_mono)
    have m3: "matched (?w ContratoServicio) row"
      if "row \<in> set (itertuples dfs')" "key_of row \<noteq> PNone" for row
      using execute_all_ok_matched[OF e3 that] w by simp
    from guardar_cases[of env dfs ?w] show ?thesis
    proof
      assume "raised (guardar env dfs ?w) \<noteq> None \<and> db (guardar env dfs ?w) = ?w \<and>
        n_commits (guardar env dfs ?w) = 0"
      then show ?thesis by simp
    next
      assume "raised (guardar env dfs ?w) = None \<and>
         only_appends ?w (db (guardar env dfs ?w)) \<and>
         n_commits (guardar env dfs ?w) = 1 \<and> connect_error env = None \<and>
         (\<exists>c. insertar env dfs (connect ?w) = (None, c) \<and>
              db (guardar env dfs ?w) = working c)"
      then obtain c' where c': "insertar env (dfc, dfk, dfs') (connect ?w) = (None, c')"
        "db (guardar env dfs ?w) = working c'" using d by auto
      from insertar_steps[OF c'(1)] obtain d1 d2 d3 where
        dc: "c' = commit d3" and
        f1: "execute_all env Cliente (itertuples dfc) (connect ?w) = (None, d1)" and
        f2: "execute_all env CasoJuridico (itertuples dfk) d1 = (None, d2)" and
        f3: "execute_all env ContratoServicio (itertuples dfs') d2 = (None, d3)" by auto
      have wc: "working (connect ?w) = ?w" by (simp add: connect_def)
      have "d1 = connect ?w"
        using assms _ f1 by (rule execute_all_matched_unchanged) (simp add: wc m1)
      moreover have "d2 = d1"
        using assms _ f2 by (rule execute_all_matched_unchanged) (simp add: calculation wc m2)
      moreover have "d3 = d2"
        using assms _ f3 by (rule execute_all_matched_unchanged) (simp add: calculation wc m3)
      ultimately have "working c' = ?w" using dc wc by (simp add: commit_def)
      with c'(2) show ?thesis by simp
    qed
  qed
qed

section \<open>Lemmas on the run\<close>

lemma main_split:
  "\<exists>x. \<forall>s. main env s =
     (case x of
        None \<Rightarrow> Unmodelled
      | Some (Inl e) \<Rightarrow> Modelled \<lparr>raised = Some e, db = s, n_commits = 0\<rparr>
      | Some (Inr dfs) \<Rightarrow> Modelled (guardar env dfs s))"
proof (cases "obtener env QUERY_CLIENTES ''allClientes''")
  case (Inl e)
  then show ?thesis by (intro exI[of _ "Some (Inl e)"]) (simp add: main_def)
next
  case a: (Inr a)
  show ?thesis
  proof (cases "obtener env QUERY_CASOS ''allCasos''")
    case (Inl e)
    with a show ?thesis by (intro exI[of _ "Some (Inl e)"]) (simp add: main_def)
  next
    case b: (Inr b)
    show ?thesis
    proof (cases "obtener env QUERY_SERVICIOS ''allContratos''")
      case (Inl e)
      with a b show ?thesis by (intro exI[of _ "Some (Inl e)"]) (simp add: main_def)
    next
      case c: (Inr c)
      show ?thesis
      proof (cases "normalizar (lib env) a b c")
        case Unmodelled
        with a b c show ?thesis by (intro exI[of _ None]) (simp add: main_def)
      next
        case (Modelled y)
        with a b c show ?thesis
          by (intro exI[of _ "Some y"]) (simp add: main_def split: sum.splits)
      qed
    qed
  qed
qed

lemma main_cases:
  assumes "main env s = Modelled r"
  shows "(\<exists>e. r = \<lparr>raised = Some e, db = s, n_commits = 0\<rparr> \<and>
              (\<forall>s'. main env s' = Modelled \<lparr>raised = Some e, db = s', n_commits = 0\<rparr>)) \<or>
         (\<exists>dfs. r = guardar env dfs s \<and> (\<forall>s'. main env s' = Modelled (guardar env dfs s')))"
proof -
  from main_split[of env] obtain x where x: "\<And>s. main env s =
     (case x of
        None \<Rightarrow> Unmodelled
      | Some (Inl e) \<Rightarrow> Modelled \<lparr>raised = Some e, db = s, n_commits = 0\<rparr>
      | Some (Inr dfs) \<Rightarrow> Modelled (guardar env dfs s))" by blast
  show ?thesis
  proof (cases x)
    case None
    with x[of s] assms show ?thesis by simp
  next
    case (Some y)
    show ?thesis
    proof (cases y)
      case (Inl e)
      with Some x have "\<And>s. main env s = Modelled \<lparr>raised = Some e, db = s, n_commits = 0\<rparr>"
        by simp
      with assms show ?thesis by auto
    next
      case (Inr dfs)
      with Some x have m: "\<And>s. main env s = Modelled (guardar env dfs s)"
        by simp
      with assms have "r = guardar env dfs s" by simp
      with m show ?thesis by blast
    qed
  qed
qed

lemma main_appends:
  assumes "main env s = Modelled r"
  shows "only_appends s (db r)"
proof -
  from main_cases[OF assms] show ?thesis
  proof
    assume "\<exists>e. r = \<lparr>raised = Some e, db = s, n_commits = 0\<rparr> \<and>
              (\<forall>s'. main env s' = Modelled \<lparr>raised = Some e, db = s', n_commits = 0\<rparr>)"
    then show ?thesis by (auto simp: only_appends_refl)
  next
    assume "\<exists>dfs. r = guardar env dfs s \<and> (\<forall>s'. main env s' = Modelled (guardar env dfs s'))"
    then obtain dfs where "r = guardar env dfs s" by blast
    with guardar_cases[of env dfs s] show ?thesis by (auto simp: only_appends_refl)
  qed
qed

lemma corridas_appends:
  "corridas envs s = Modelled s' \<Longrightarrow> only_appends s s'"
proof (induction envs arbitrary: s)
  case Nil
  then show ?case by (simp add: only_appends_refl)
next
  case (Cons env envs)
  then obtain r where r: "main env s = Modelled r" "corridas envs (db r) = Modelled s'"
    by (auto split: modelled.splits)
  from main_appends[OF r(1)] Cons.IH[OF r(2)] show ?case
    by (rule only_appends_trans)
qed

section \<open>Lemmas on the scenarios\<close>

lemmas frame_defs =
  normalizar_def DataFrame_def DataFrame_records_def infer_objects_def
  procesar_datos_servicios_def
  procesar_servicio_def limpiar_dataframes_def drop_duplicates_def empty_df_def
  reset_index_def rename_def get_column_def set_column_def to_datetime_def to_numeric_def
  float_series_def round2_def bind_err_def

lemmas db_defs =
  guardar_def insertar_def itertuples_def connect_def execute_def commit_def rollback_def
  merge_insert_def matched_def sql_eq_def

lemmas scenario_defs =
  cliente_a1_def caso_c1_def contrato_k1_def fila_a1_def fila_c1_def fila_k1_def
  columnas_servicios_def

lemma round_150555: "np_round2 (float64 (150555 / 1000)) = float64 (15056 / 100)"
  by code_simp

lemma round_150555_reduced: "np_round2 (float64 (30111 / 200)) = float64 (3764 / 25)"
  using round_150555 by simp

lemma normalizar_escenario:
  "normalizar lee_fecha (PList [cliente_a1 nombre]) (PList [caso_c1]) (PList [contrato_k1]) =
   Modelled (Inr (marcos nombre))"
  by (simp add: frame_defs scenario_defs marcos_def lee_fecha_def round_150555_reduced)

lemma main_escenario: "main (escenario nombre) s = Modelled (guardar (escenario nombre) (marcos nombre) s)"
  by (simp add: main_fuente escenario_def normalizar_escenario)

lemma main_escenario_caido:
  "main (escenario_caido malo) s = Modelled (guardar (escenario_caido malo) (marcos ''Ana'') s)"
  by (simp add: main_fuente escenario_caido_def normalizar_escenario)

lemma float64_7: "float64 7 = 7"
  by code_simp

lemma float64_9: "float64 9 = 9"
  by code_simp

lemmas husos_defs =
  escenario_husos_def lee_husos_def contrato_k4_def contrato_k5_def fila_k4_def fila_k5_def
  servidor_def vacia_def py_eq_def marco_desborde_def marco_clientes_def marco_casos_def
  lee_fecha_def

lemmas huerfano_defs =
  escenario_huerfano_def lee_fecha_def cliente_7_def caso_9_def contrato_k7_def
  contrato_huerfano_def fila_7_def fila_9_def fila_k7_def fila_k3_def contrato_k8_def fila_k8_def
  servidor_def servidor_estricto_def vacia_def py_eq_def guardar_message_def

section \<open>Lemmas on the normalizer\<close>

lemma py_eq_sym: "py_eq a b \<Longrightarrow> py_eq b a"
  by (auto simp: py_eq_def split: option.splits)

lemma py_eq_trans: "py_eq a b \<Longrightarrow> py_eq b c \<Longrightarrow> py_eq a c"
  by (auto simp: py_eq_def split: option.splits)

lemma keep_first_fresh:
  "r \<in> set (keep_first key seen rs) \<Longrightarrow> s \<in> set seen \<Longrightarrow> \<not> py_eq (key r) s"
proof (induction rs arbitrary: seen)
  case Nil
  then show ?case by simp
next
  case (Cons a rs)
  show ?case
  proof (cases "list_ex (py_eq (key a)) seen")
    case True
    with Cons.prems have "r \<in> set (keep_first key seen rs)" by simp
    from Cons.IH[OF this Cons.prems(2)] show ?thesis .
  next
    case False
    with Cons.prems(1) have "r = a \<or> r \<in> set (keep_first key (key a # seen) rs)" by simp
    then show ?thesis
    proof
      assume "r = a"
      with False Cons.prems(2) show ?thesis by (auto simp: list_ex_iff)
    next
      assume "r \<in> set (keep_first key (key a # seen) rs)"
      from Cons.IH[OF this] Cons.prems(2) show ?thesis by simp
    qed
  qed
qed

lemma keep_first_distinct: "distinct_keys (map key (keep_first key seen rs))"
proof (induction rs arbitrary: seen)
  case Nil
  then show ?case by simp
next
  case (Cons a rs)
  show ?case
  proof (cases "list_ex (py_eq (key a)) seen")
    case True
    with Cons.IH show ?thesis by simp
  next
    case False
    have "\<not> py_eq (key a) (key r)" if "r \<in> set (keep_first key (key a # seen) rs)" for r
      using keep_first_fresh[OF that, of "key a"] py_eq_sym by auto
    then have "\<not> list_ex (py_eq (key a)) (map key (keep_first key (key a # seen) rs))"
      by (auto simp: list_ex_iff)
    with False Cons.IH show ?thesis by simp
  qed
qed

lemma keep_first_find:
  "\<forall>s\<in>set seen. \<not> py_eq s k \<Longrightarrow>
   find (\<lambda>r. py_eq (key r) k) (keep_first key seen rs) = find (\<lambda>r. py_eq (key r) k) rs"
proof (induction rs arbitrary: seen)
  case Nil
  then show ?case by simp
next
  case (Cons a rs)
  show ?case
  proof (cases "list_ex (py_eq (key a)) seen")
    case True
    then obtain s where s: "s \<in> set seen" "py_eq (key a) s" by (auto simp: list_ex_iff)
    have "\<not> py_eq (key a) k"
    proof
      assume "py_eq (key a) k"
      with s(2) have "py_eq s k" using py_eq_sym py_eq_trans by blast
      with Cons.prems s(1) show False by simp
    qed
    with True Cons.IH[OF Cons.prems] show ?thesis by simp
  next
    case False
    show ?thesis
    proof (cases "py_eq (key a) k")
      case True
      with False show ?thesis by simp
    next
      case ne: False
      with Cons.prems have "\<forall>s\<in>set (key a # seen). \<not> py_eq s k" by simp
      from Cons.IH[OF this] False ne show ?thesis by simp
    qed
  qed
qed

lemma drop_duplicates_first:
  assumes "drop_duplicates k df = Inr d" and "index_of k (columns df) = Some i"
  shows "columns d = columns df \<and> distinct_keys (map (\<lambda>r. r ! i) (rows d)) \<and>
         (\<forall>v. find (\<lambda>r. py_eq (r ! i) v) (rows d) = find (\<lambda>r. py_eq (r ! i) v) (rows df))"
proof (cases "empty_df df")
  case True
  with assms(2) have "rows df = []" by (auto simp: empty_df_def)
  with True assms(1) show ?thesis by (auto simp: drop_duplicates_def)
next
  case False
  with assms have "d = df\<lparr>rows := keep_first (\<lambda>r. r ! i) [] (rows df)\<rparr>"
    by (simp add: drop_duplicates_def split: if_splits)
  then show ?thesis by (simp add: keep_first_distinct keep_first_find)
qed


lemma index_of_nth: "index_of k cs = Some i \<Longrightarrow> i < length cs \<and> cs ! i = k"
  by (induction cs arbitrary: i) (auto split: if_splits)

lemma index_of_neq:
  "index_of k cs = Some i \<Longrightarrow> index_of k' cs = Some j \<Longrightarrow> k \<noteq> k' \<Longrightarrow> i \<noteq> j"
  by (auto dest!: index_of_nth)

lemma find_rel:
  "list_all2 (\<lambda>y x. key y = key x \<and> R y x) ys xs \<Longrightarrow>
   rel_option R (find (\<lambda>r. P (key r)) ys) (find (\<lambda>r. P (key r)) xs)"
  by (induction ys xs rule: list_all2_induct) auto

lemma set_column_rows:
  assumes "index_of c (columns df) = Some j" and "length vs = length (rows df)"
  shows "columns (set_column df c vs) = columns df \<and>
         list_all2 (\<lambda>y x. \<forall>n. n \<noteq> j \<longrightarrow> y ! n = x ! n) (rows (set_column df c vs)) (rows df)"
  using assms by (auto simp: set_column_def list_all2_conv_all_nth)

lemma limpiar_steps:
  assumes "limpiar_dataframes pd dfc dfk dfs = Inr (fc, fk, fs)"
  shows "\<exists>d2 d3 fecha fechas monto montos.
           drop_duplicates ''ci'' dfc = Inr fc \<and>
           drop_duplicates ''id'' dfk = Inr d2 \<and>
           fk = rename [(''id'', ''nrocaso''), (''materia'', ''materia'')] d2 \<and>
           drop_duplicates ''nrocontrato'' dfs = Inr d3 \<and>
           get_column d3 ''fecha'' = Inr fecha \<and>
           to_datetime pd fecha = Inr fechas \<and>
           get_column (set_column d3 ''fecha'' fechas) ''monto'' = Inr monto \<and>
           to_numeric pd monto = Inr montos \<and>
           fs = set_column (set_column d3 ''fecha'' fechas) ''monto'' (round2 montos)"
  using assms
  by (auto simp: limpiar_dataframes_def bind_err_def reset_index_def Let_def split: sum.splits)

lemma get_column_index:
  "get_column df k = Inr col \<Longrightarrow>
   \<exists>j. index_of k (columns df) = Some j \<and> col = map (\<lambda>r. r ! j) (rows df)"
  by (auto simp: get_column_def split: option.splits)

lemma drop_duplicates_columns: "drop_duplicates k df = Inr d \<Longrightarrow> columns d = columns df"
  by (auto simp: drop_duplicates_def split: if_splits option.splits)

lemma map_err_length: "map_err f xs = Inr ys \<Longrightarrow> length ys = length xs"
  by (induction xs arbitrary: ys) (auto split: sum.splits)

lemma length_round2: "length (round2 col) = length col"
  by (simp add: round2_def)

lemma length_to_numeric: "to_numeric pd col = Inr ms \<Longrightarrow> length ms = length col"
  by (auto simp: to_numeric_def Let_def split: if_splits)

lemma length_to_datetime: "to_datetime pd col = Inr ts \<Longrightarrow> length ts = length col"
  by (auto simp: to_datetime_def dest: map_err_length)

lemma limpiar_servicios_rows:
  assumes "limpiar_dataframes pd dfc dfk dfs = Inr (fc, fk, fs)"
    and "index_of ''fecha'' (columns dfs) = Some jf"
    and "index_of ''monto'' (columns dfs) = Some jm"
  shows "\<exists>d3. drop_duplicates ''nrocontrato'' dfs = Inr d3 \<and> columns fs = columns dfs \<and>
           list_all2 (\<lambda>y x. \<forall>n. n \<noteq> jf \<and> n \<noteq> jm \<longrightarrow> y ! n = x ! n) (rows fs) (rows d3)"
proof -
  from limpiar_steps[OF assms(1)] obtain d3 fecha fechas monto montos where
    d3: "drop_duplicates ''nrocontrato'' dfs = Inr d3" and
    gf: "get_column d3 ''fecha'' = Inr fecha" and
    tf: "to_datetime pd fecha = Inr fechas" and
    gm: "get_column (set_column d3 ''fecha'' fechas) ''monto'' = Inr monto" and
    tm: "to_numeric pd monto = Inr montos" and
    fs: "fs = set_column (set_column d3 ''fecha'' fechas) ''monto'' (round2 montos)" by blast
  let ?a = "set_column d3 ''fecha'' fechas"
  have cd: "columns d3 = columns dfs" using d3 by (rule drop_duplicates_columns)
  from get_column_index[OF gf] assms(2) cd
  have f: "index_of ''fecha'' (columns d3) = Some jf" "length fecha = length (rows d3)" by auto
  from set_column_rows[OF f(1), of fechas] f(2) length_to_datetime[OF tf]
  have a: "columns ?a = columns d3"
    "list_all2 (\<lambda>y x. \<forall>n. n \<noteq> jf \<longrightarrow> y ! n = x ! n) (rows ?a) (rows d3)"
    by simp_all
  from get_column_index[OF gm] assms(3) cd a(1)
  have m: "index_of ''monto'' (columns ?a) = Some jm" "length monto = length (rows ?a)" by auto
  from set_column_rows[OF m(1), of "round2 montos"] m(2) length_to_numeric[OF tm]
  have b: "columns fs = columns ?a"
    "list_all2 (\<lambda>y x. \<forall>n. n \<noteq> jm \<longrightarrow> y ! n = x ! n) (rows fs) (rows ?a)"
    by (simp_all add: fs length_round2)
  have "list_all2 (\<lambda>y x. \<forall>n. n \<noteq> jf \<and> n \<noteq> jm \<longrightarrow> y ! n = x ! n) (rows fs) (rows d3)"
    using b(2) a(2) by (auto simp: list_all2_conv_all_nth)
  with d3 b(1) a(1) cd show ?thesis by auto
qed

section \<open>The claims\<close>

text \<open>
  C10, as stated: with status 200 and a body whose \<^verbatim>\<open>"data"\<close> is missing or null,
  \<^verbatim>\<open>consulta_graphql\<close> raises no protocol error and fails with a key-lookup error
  instead. The second half does not hold for a null \<^verbatim>\<open>"data"\<close>: there
  \<^verbatim>\<open>consulta_graphql\<close> does not fail, it returns \<^verbatim>\<open>None\<close>.
\<close>

theorem consulta_graphql_null_data_returns:
  "consulta_graphql (responde (PDict [(''data'', PNone), (''errors'', PList [PStr ''boom''])]))
     QUERY_CLIENTES = Inr PNone"
  by (simp add: consulta_graphql_def responde_def ok200_def)

text \<open>
  C10, amended: for a response with status 200 whose body is a JSON object,
  \<^verbatim>\<open>consulta_graphql\<close> never raises the protocol error. When the body has no
  \<^verbatim>\<open>"data"\<close> key it raises \<^verbatim>\<open>KeyError\<close>; when \<^verbatim>\<open>"data"\<close> is null it returns
  \<^verbatim>\<open>None\<close>, and the lookup of the list field that \<^verbatim>\<open>main\<close> makes on the result raises
  \<^verbatim>\<open>TypeError\<close>. Either error leaves \<^verbatim>\<open>main\<close> as it is (shown for the first
  query), not wrapped, before the database is opened.
\<close>

theorem status_200_is_never_a_protocol_error:
  assumes "post env q = Inr r" and "status_code r = 200" and "json_body r = Some (PDict body)"
  shows "(\<forall>n. consulta_graphql (post env) q \<noteq> Inl (GraphQLError n)) \<and>
         (map_of body ''data'' = None \<longrightarrow>
            consulta_graphql (post env) q = Inl (KeyError ''data'') \<and>
            (q = QUERY_CLIENTES \<longrightarrow>
               main env s = Modelled \<lparr>raised = Some (KeyError ''data''), db = s, n_commits = 0\<rparr>)) \<and>
         (map_of body ''data'' = Some PNone \<longrightarrow>
            consulta_graphql (post env) q = Inr PNone \<and>
            obtener env q campo = Inl TypeError \<and>
            (q = QUERY_CLIENTES \<longrightarrow>
               main env s = Modelled \<lparr>raised = Some TypeError, db = s, n_commits = 0\<rparr>))"
proof -
  have c: "consulta_graphql (post env) q = subscript (PDict body) ''data''"
    using assms by (rule consulta_graphql_200)
  have k: "map_of body ''data'' = None \<Longrightarrow> obtener env q campo' = Inl (KeyError ''data'')"
    for campo'
    by (simp add: obtener_def bind_err_def c)
  have n: "map_of body ''data'' = Some PNone \<Longrightarrow> obtener env q campo' = Inl TypeError"
    for campo'
    by (simp add: obtener_def bind_err_def c)
  show ?thesis
    using k n main_first_query_fails by (auto simp: c split: option.splits)
qed

theorem status_200_is_never_a_protocol_error_witness:
  "consulta_graphql (post errores_200) QUERY_CLIENTES = Inl (KeyError ''data'') \<and>
   main errores_200 vacia =
     Modelled \<lparr>raised = Some (KeyError ''data''), db = vacia, n_commits = 0\<rparr>"
  using status_200_is_never_a_protocol_error
    [of errores_200 QUERY_CLIENTES
        "\<lparr>status_code = 200, json_body = Some (PDict [(''errors'', PList [PStr ''boom''])])\<rparr>"
        "[(''errors'', PList [PStr ''boom''])]" vacia]
  by (simp add: errores_200_def responde_def ok200_def)

text \<open>
  C4: a source with no record for an entity type gives an empty sequence and no error.
  The code does not do so for contracts: the frame built from an empty list has no
  column, and \<^verbatim>\<open>limpiar_dataframes\<close> raises \<^verbatim>\<open>KeyError\<close> when it reads the column
  \<^verbatim>\<open>fecha\<close>. The run ends there, before the database is opened.
\<close>

theorem main_without_contracts_raises:
  "main sin_contratos vacia =
     Modelled \<lparr>raised = Some (KeyError ''fecha''), db = vacia, n_commits = 0\<rparr>"
  by (simp add: main_fuente sin_contratos_def frame_defs scenario_defs)



text \<open>
  C9, as stated: when a statement fails, the run fails with an error that wraps the
  store's error and identifies the entity type and the key that failed. The error
  \<^verbatim>\<open>main\<close> raises carries neither: a failure on the client A1 and a failure on the
  contract K1 (after client and case went through) raise the same exception.
\<close>

theorem same_exception_for_different_entities:
  "main (escenario_caido Cliente) vacia =
     Modelled \<lparr>raised = Some (Exception
       ''Error al guardar los datos en la base de datos: Communication link failure''),
       db = vacia, n_commits = 0\<rparr> \<and>
   main (escenario_caido ContratoServicio) vacia =
     Modelled \<lparr>raised = Some (Exception
       ''Error al guardar los datos en la base de datos: Communication link failure''),
       db = vacia, n_commits = 0\<rparr> \<and>
   fst (execute (escenario_caido Cliente) Cliente fila_a1 (connect vacia)) =
     Some (DatabaseError ''Communication link failure'') \<and>
   fst (execute (escenario_caido ContratoServicio) Cliente fila_a1 (connect vacia)) = None \<and>
   fst (execute (escenario_caido ContratoServicio) ContratoServicio fila_k1 (connect vacia)) =
     Some (DatabaseError ''Communication link failure'')"
  unfolding main_escenario_caido
  by (simp add: marcos_def db_defs escenario_caido_def servidor_caido_def
      guardar_message_def scenario_defs vacia_def)

text \<open>
  C9, amended: when a statement fails during the three loops of a run that reached the
  database step, the driver's error carries a message (the server's, or the driver's
  own when the parameters do not fit the statement), and \<^verbatim>\<open>main\<close> raises a plain
  \<^verbatim>\<open>Exception\<close> whose message is the fixed text
  \<^verbatim>\<open>Error al guardar los datos en la base de datos: \<close> followed by that message. The
  script adds neither the entity type nor the key. Nothing is committed.
\<close>

theorem store_error_is_wrapped_as_text:
  assumes "main env s = Modelled (guardar env dfs s)"
    and "connect_error env = None"
    and "insertar env dfs (connect s) = (Some e, c)"
  shows "\<exists>m. e = DatabaseError m \<and>
             (m = marker_message \<or> (\<exists>t w row. execute_error env t w row = Some m)) \<and>
             main env s =
               Modelled \<lparr>raised = Some (Exception (guardar_message @ m)), db = s, n_commits = 0\<rparr>"
proof -
  from insertar_error_message[OF assms(3)] obtain m where
    m: "e = DatabaseError m"
       "m = marker_message \<or> (\<exists>t w row. execute_error env t w row = Some m)" by blast
  from insertar_appends(2)[OF assms(3)]
  have "committed c = committed (connect s)" "commits c = commits (connect s)" by simp_all
  then have "guardar env dfs s =
      \<lparr>raised = Some (Exception (guardar_message @ m)), db = s, n_commits = 0\<rparr>"
    using assms(2,3) m(1) by (simp add: guardar_def rollback_def connect_def)
  with assms(1) m show ?thesis by auto
qed

theorem store_error_is_wrapped_as_text_witness:
  "main (escenario_caido ContratoServicio) vacia =
     Modelled \<lparr>raised = Some (Exception (guardar_message @ ''Communication link failure'')),
               db = vacia, n_commits = 0\<rparr>"
proof -
  let ?env = "escenario_caido ContratoServicio"
  let ?i = "insertar ?env (marcos ''Ana'') (connect vacia)"
  have f: "fst ?i = Some (DatabaseError ''Communication link failure'')"
    by (simp add: marcos_def db_defs escenario_caido_def servidor_caido_def scenario_defs
        vacia_def)
  have i: "?i = (Some (DatabaseError ''Communication link failure''), snd ?i)"
    using f by (simp add: prod_eq_iff)
  have c: "connect_error ?env = None"
    by (simp add: escenario_caido_def)
  from store_error_is_wrapped_as_text[OF main_escenario_caido c i]
  show ?thesis by auto
qed



text \<open>
  C1: across any sequence of runs, whatever each run's source, parsers and server
  are, every table of the database ends as the table it was followed by new rows whose
  keys were not there: a row once stored is never updated or deleted. So the row found
  under a key stays the row that was stored first, also when a later source carries
  other values for the key.
\<close>

theorem insert_only:
  assumes "corridas envs s = Modelled s'"
  shows "only_appends s s' \<and>
         (\<forall>t k row. find (\<lambda>r. sql_eq (key_of r) k) (s t) = Some row \<longrightarrow>
                     find (\<lambda>r. sql_eq (key_of r) k) (s' t) = Some row)"
  using corridas_appends[OF assms] find_only_appends by blast

theorem insert_only_witness:
  "\<exists>s1 s2. corridas [escenario ''Ana''] vacia = Modelled s1 \<and> s1 Cliente = [fila_a1] \<and>
     corridas [escenario ''Anabel''] s1 = Modelled s2 \<and> only_appends s1 s2 \<and>
     find (\<lambda>r. sql_eq (key_of r) (PStr ''A1'')) (s2 Cliente) = Some fila_a1"
proof -
  obtain s1 where s1: "corridas [escenario ''Ana''] vacia = Modelled s1"
    by (simp add: main_escenario)
  have c1: "s1 Cliente = [fila_a1]"
    using s1 unfolding corridas.simps main_escenario
    by (auto simp: marcos_def db_defs escenario_def servidor_def scenario_defs vacia_def)
  obtain s2 where s2: "corridas [escenario ''Anabel''] s1 = Modelled s2"
    by (simp add: main_escenario)
  have f: "find (\<lambda>r. sql_eq (key_of r) (PStr ''A1'')) (s1 Cliente) = Some fila_a1"
    by (simp add: c1 fila_a1_def sql_eq_def)
  from insert_only[OF s2] f
  have "only_appends s1 s2 \<and>
        find (\<lambda>r. sql_eq (key_of r) (PStr ''A1'')) (s2 Cliente) = Some fila_a1"
    by blast
  with s1 c1 s2 show ?thesis by blast
qed

text \<open>
  C3: a second run against the same source, parsers and server, on the database the
  first run left, leaves every table as it is, so each table has as many rows as after
  the first run. The server is one that refuses a null key, as the primary keys of the
  spec's data model make it.
\<close>

theorem second_run_changes_nothing:
  assumes "main env s = Modelled r1" and "keys_not_null env"
  shows "\<exists>r2. main env (db r1) = Modelled r2 \<and> db r2 = db r1 \<and>
              length (db r2 Cliente) = length (db r1 Cliente) \<and>
              length (db r2 CasoJuridico) = length (db r1 CasoJuridico) \<and>
              length (db r2 ContratoServicio) = length (db r1 ContratoServicio)"
proof -
  from main_cases[OF assms(1)] show ?thesis
  proof
    assume "\<exists>e. r1 = \<lparr>raised = Some e, db = s, n_commits = 0\<rparr> \<and>
              (\<forall>s'. main env s' = Modelled \<lparr>raised = Some e, db = s', n_commits = 0\<rparr>)"
    then show ?thesis by auto
  next
    assume "\<exists>dfs. r1 = guardar env dfs s \<and> (\<forall>s'. main env s' = Modelled (guardar env dfs s'))"
    then obtain dfs where r: "r1 = guardar env dfs s"
      and m: "\<And>s'. main env s' = Modelled (guardar env dfs s')" by blast
    have "db (guardar env dfs (db r1)) = db r1"
      unfolding r using assms(2) by (rule guardar_twice)
    with m[of "db r1"] show ?thesis by simp
  qed
qed

theorem second_run_changes_nothing_witness:
  "\<exists>r1 r2. main (escenario ''Ana'') vacia = Modelled r1 \<and> raised r1 = None \<and>
     keys_not_null (escenario ''Ana'') \<and>
     main (escenario ''Ana'') (db r1) = Modelled r2 \<and> raised r2 = None \<and>
     length (db r1 Cliente) = 1 \<and> length (db r2 Cliente) = 1 \<and>
     length (db r1 CasoJuridico) = 1 \<and> length (db r2 CasoJuridico) = 1 \<and>
     length (db r1 ContratoServicio) = 1 \<and> length (db r2 ContratoServicio) = 1"
proof -
  let ?env = "escenario ''Ana''"
  obtain r1 where r1: "main ?env vacia = Modelled r1"
    by (simp add: main_escenario)
  have k: "keys_not_null ?env"
    by (simp add: keys_not_null_def escenario_def servidor_def)
  have v: "raised r1 = None \<and> length (db r1 Cliente) = 1 \<and> length (db r1 CasoJuridico) = 1 \<and>
     length (db r1 ContratoServicio) = 1 \<and>
     raised (guardar ?env (marcos ''Ana'') (db r1)) = None"
    using r1 unfolding main_escenario
    by (auto simp: marcos_def db_defs escenario_def servidor_def scenario_defs vacia_def)
  from second_run_changes_nothing[OF r1 k] obtain r2 where
    r2: "main ?env (db r1) = Modelled r2" "db r2 = db r1" by blast
  from r2(1) v have "raised r2 = None" by (simp add: main_escenario)
  with r1 k v r2 show ?thesis by auto
qed

text \<open>
  C5: the cleaning keeps, for each key, the first row in source order and no other.
  Two cells are the same key when pandas takes them for the same, which is Python's
  equality: \<^verbatim>\<open>1\<close>, \<^verbatim>\<open>True\<close> and \<^verbatim>\<open>1.0\<close> are one key. For the clients and
  the cases no two rows that survive have the same key, and the row found under a key is
  the first row of the source frame with that key, cell for cell. For the contracts the
  same holds up to the two cells the cleaning coerces afterwards (date and amount): the
  surviving row of a key agrees with the first source row of that key in every other
  cell.
\<close>

theorem dedup_keeps_first:
  assumes "limpiar_dataframes pd df_clientes df_casos df_servicios = Inr (fc, fk, fs)"
  shows "(\<forall>i. index_of ''ci'' (columns df_clientes) = Some i \<longrightarrow>
            distinct_keys (map (\<lambda>r. r ! i) (rows fc)) \<and>
            (\<forall>k. find (\<lambda>r. py_eq (r ! i) k) (rows fc) =
                 find (\<lambda>r. py_eq (r ! i) k) (rows df_clientes))) \<and>
         (\<forall>i. index_of ''id'' (columns df_casos) = Some i \<longrightarrow>
            distinct_keys (map (\<lambda>r. r ! i) (rows fk)) \<and>
            (\<forall>k. find (\<lambda>r. py_eq (r ! i) k) (rows fk) =
                 find (\<lambda>r. py_eq (r ! i) k) (rows df_casos))) \<and>
         (\<forall>i jf jm. index_of ''nrocontrato'' (columns df_servicios) = Some i \<longrightarrow>
            index_of ''fecha'' (columns df_servicios) = Some jf \<longrightarrow>
            index_of ''monto'' (columns df_servicios) = Some jm \<longrightarrow>
            distinct_keys (map (\<lambda>r. r ! i) (rows fs)) \<and>
            (\<forall>k. rel_option (\<lambda>out inp. \<forall>n. n \<noteq> jf \<and> n \<noteq> jm \<longrightarrow> out ! n = inp ! n)
                   (find (\<lambda>r. py_eq (r ! i) k) (rows fs))
                   (find (\<lambda>r. py_eq (r ! i) k) (rows df_servicios))))"
proof (intro conjI allI impI)
  from limpiar_steps[OF assms] obtain d2 where
    d1: "drop_duplicates ''ci'' df_clientes = Inr fc" and
    d2: "drop_duplicates ''id'' df_casos = Inr d2" and
    fk: "fk = rename [(''id'', ''nrocaso''), (''materia'', ''materia'')] d2" by blast
  have rk: "rows fk = rows d2" by (simp add: fk rename_def)
  {
    fix i assume "index_of ''ci'' (columns df_clientes) = Some i"
    from drop_duplicates_first[OF d1 this]
    show "distinct_keys (map (\<lambda>r. r ! i) (rows fc))"
      and "find (\<lambda>r. py_eq (r ! i) k) (rows fc) = find (\<lambda>r. py_eq (r ! i) k) (rows df_clientes)"
      for k
      by simp_all
  }
  {
    fix i assume "index_of ''id'' (columns df_casos) = Some i"
    from drop_duplicates_first[OF d2 this]
    show "distinct_keys (map (\<lambda>r. r ! i) (rows fk))"
      and "find (\<lambda>r. py_eq (r ! i) k) (rows fk) = find (\<lambda>r. py_eq (r ! i) k) (rows df_casos)"
      for k
      by (simp_all add: rk)
  }
  {
    fix i jf jm
    assume i: "index_of ''nrocontrato'' (columns df_servicios) = Some i"
      and jf: "index_of ''fecha'' (columns df_servicios) = Some jf"
      and jm: "index_of ''monto'' (columns df_servicios) = Some jm"
    from limpiar_servicios_rows[OF assms jf jm] obtain d3 where
      d3: "drop_duplicates ''nrocontrato'' df_servicios = Inr d3" and
      l: "list_all2 (\<lambda>y x. \<forall>n. n \<noteq> jf \<and> n \<noteq> jm \<longrightarrow> y ! n = x ! n) (rows fs) (rows d3)"
      by blast
    have ne: "i \<noteq> jf" "i \<noteq> jm"
      using index_of_neq[OF i jf] index_of_neq[OF i jm] by simp_all
    note f = drop_duplicates_first[OF d3 i]
    from l ne have l2: "list_all2 (\<lambda>y x. y ! i = x ! i \<and>
        (\<forall>n. n \<noteq> jf \<and> n \<noteq> jm \<longrightarrow> y ! n = x ! n)) (rows fs) (rows d3)"
      by (auto simp: list_all2_conv_all_nth)
    then have "map (\<lambda>r. r ! i) (rows fs) = map (\<lambda>r. r ! i) (rows d3)"
      by (auto simp: list_all2_conv_all_nth intro: nth_equalityI)
    with f show "distinct_keys (map (\<lambda>r. r ! i) (rows fs))" by simp
    from f have e: "find (\<lambda>r. py_eq (r ! i) k) (rows d3) =
                    find (\<lambda>r. py_eq (r ! i) k) (rows df_servicios)"
      for k by simp
    from find_rel[OF l2, of "\<lambda>v. py_eq v k" for k, unfolded e]
    show "rel_option (\<lambda>out inp. \<forall>n. n \<noteq> jf \<and> n \<noteq> jm \<longrightarrow> out ! n = inp ! n)
            (find (\<lambda>r. py_eq (r ! i) k) (rows fs))
            (find (\<lambda>r. py_eq (r ! i) k) (rows df_servicios))" for k .
  }
qed

theorem dedup_keeps_first_witness:
  "\<exists>fc fk fs.
     limpiar_dataframes lee_fecha marco_clientes_repetidos marco_casos_mixtos marco_servicios =
       Inr (fc, fk, fs) \<and>
     rows fc = [fila_a1] \<and>
     rows fk = [[PInt 1, PStr ''civil''], [PStr ''a'', PStr ''familia'']] \<and>
     distinct_keys (map (\<lambda>r. r ! 0) (rows fc)) \<and>
     distinct_keys (map (\<lambda>r. r ! 0) (rows fk)) \<and>
     find (\<lambda>r. py_eq (r ! 0) (PStr ''A1'')) (rows fc) =
       find (\<lambda>r. py_eq (r ! 0) (PStr ''A1'')) (rows marco_clientes_repetidos) \<and>
     find (\<lambda>r. py_eq (r ! 0) (PStr ''A1'')) (rows marco_clientes_repetidos) = Some fila_a1 \<and>
     find (\<lambda>r. py_eq (r ! 0) (PBool True)) (rows fk) =
       find (\<lambda>r. py_eq (r ! 0) (PBool True)) (rows marco_casos_mixtos) \<and>
     find (\<lambda>r. py_eq (r ! 0) (PBool True)) (rows marco_casos_mixtos) =
       Some [PInt 1, PStr ''civil'']"
proof -
  obtain fc fk fs where
    l: "limpiar_dataframes lee_fecha marco_clientes_repetidos marco_casos_mixtos marco_servicios =
          Inr (fc, fk, fs)" and
    r: "rows fc = [fila_a1]" "rows fk = [[PInt 1, PStr ''civil''], [PStr ''a'', PStr ''familia'']]"
    by (simp add: frame_defs scenario_defs marco_clientes_repetidos_def marco_casos_mixtos_def
        marco_servicios_def lee_fecha_def round_150555_reduced py_eq_def)
  have i: "index_of ''ci'' (columns marco_clientes_repetidos) = Some 0"
    "index_of ''id'' (columns marco_casos_mixtos) = Some 0"
    by (simp_all add: marco_clientes_repetidos_def marco_casos_mixtos_def)
  from dedup_keeps_first[OF l] i
  have "distinct_keys (map (\<lambda>r. r ! 0) (rows fc)) \<and>
        distinct_keys (map (\<lambda>r. r ! 0) (rows fk)) \<and>
        find (\<lambda>r. py_eq (r ! 0) (PStr ''A1'')) (rows fc) =
          find (\<lambda>r. py_eq (r ! 0) (PStr ''A1'')) (rows marco_clientes_repetidos) \<and>
        find (\<lambda>r. py_eq (r ! 0) (PBool True)) (rows fk) =
          find (\<lambda>r. py_eq (r ! 0) (PBool True)) (rows marco_casos_mixtos)"
    by blast
  moreover have "find (\<lambda>r. py_eq (r ! 0) (PStr ''A1'')) (rows marco_clientes_repetidos) = Some fila_a1"
    by (simp add: marco_clientes_repetidos_def fila_a1_def py_eq_def)
  moreover have "find (\<lambda>r. py_eq (r ! 0) (PBool True)) (rows marco_casos_mixtos) =
       Some [PInt 1, PStr ''civil'']"
    by (simp add: marco_casos_mixtos_def py_eq_def)
  ultimately show ?thesis using l r by blast
qed

text \<open>
  C6: type coercion never aborts the row or the run. \<^verbatim>\<open>limpiar_dataframes\<close> passes
  \<^verbatim>\<open>errors="coerce"\<close> to both coercions and catches nothing, and the library raises
  on some columns all the same. Take two contracts whose dates carry different UTC
  offsets. When the source has both, \<^verbatim>\<open>pd.to_datetime\<close> of pandas 3 raises
  ValueError at line 121 and the run ends with it before the database is opened:
  nothing is stored, for any entity. When the source has one of them, the date is read
  and the run stores the contract. Line 122 has the same gap: on a frame whose amount
  is an integer too large for a float, \<^verbatim>\<open>pd.to_numeric\<close> raises OverflowError and
  \<^verbatim>\<open>limpiar_dataframes\<close> ends with it.
\<close>

theorem coercion_aborts_the_run:
  "main (escenario_husos [contrato_k4, contrato_k5]) vacia =
     Modelled \<lparr>raised = Some ValueError, db = vacia, n_commits = 0\<rparr> \<and>
   main (escenario_husos [contrato_k4]) vacia =
     Modelled \<lparr>raised = None,
               db = vacia(Cliente := [fila_a1], CasoJuridico := [fila_c1],
                          ContratoServicio := [fila_k4]),
               n_commits = 1\<rparr> \<and>
   main (escenario_husos [contrato_k5]) vacia =
     Modelled \<lparr>raised = None,
               db = vacia(Cliente := [fila_a1], CasoJuridico := [fila_c1],
                          ContratoServicio := [fila_k5]),
               n_commits = 1\<rparr> \<and>
   limpiar_dataframes lee_fecha marco_clientes marco_casos marco_desborde = Inl OverflowError"
  by (simp add: main_fuente frame_defs scenario_defs db_defs husos_defs)

text \<open>
  C8: a contract without client or case is stored with null references.
  \<^verbatim>\<open>procesar_datos_servicios\<close> projects an absent client or case to \<^verbatim>\<open>None\<close>,
  but the frame it builds holds a reference column as floats as soon as another
  contract has an integer reference, and \<^verbatim>\<open>None\<close> in it is \<^verbatim>\<open>NaN\<close>; no line of
  \<^verbatim>\<open>main\<close> turns it back. In the frames the three loops iterate over, the row of
  the orphan contract K3 has the float \<^verbatim>\<open>NaN\<close> in both references, not
  \<^verbatim>\<open>None\<close>, and that row is what the statement gets: a server that takes what it is
  given stores \<^verbatim>\<open>NaN\<close>, and on a server that refuses such a float the run fails
  and stores nothing, the client and the case included. This is so with and without
  the inference of string columns. Next to a contract whose references are strings,
  the references of K3 are \<^verbatim>\<open>NaN\<close> as well when pandas infers string columns, and
  \<^verbatim>\<open>None\<close> when it does not.
\<close>

theorem orphan_reference_reaches_the_driver_as_nan:
  "procesar_servicio contrato_huerfano =
     Inr [(''nrocontrato'', PStr ''K3''), (''fecha'', PStr ''2024-03-01''), (''monto'', PInt 100),
          (''cicliente'', PNone), (''nrocasojuridico'', PNone)] \<and>
   normalizar (lib (escenario_huerfano cadenas srv))
       (PList [cliente_7]) (PList [caso_9]) (PList [contrato_k7, contrato_huerfano]) =
     Modelled (Inr (\<lparr>columns = [''ci'', ''nombre'', ''apellido''], rows = [fila_7]\<rparr>,
                    \<lparr>columns = [''nrocaso'', ''meteria''], rows = [fila_9]\<rparr>,
                    \<lparr>columns = columnas_servicios, rows = [fila_k7, fila_k3]\<rparr>)) \<and>
   main (escenario_huerfano cadenas servidor) vacia =
     Modelled \<lparr>raised = None,
               db = vacia(Cliente := [fila_7], CasoJuridico := [fila_9],
                          ContratoServicio := [fila_k7, fila_k3]),
               n_commits = 1\<rparr> \<and>
   main (escenario_huerfano cadenas servidor_estricto) vacia =
     Modelled \<lparr>raised = Some (Exception
                 ''Error al guardar los datos en la base de datos: The supplied value is not a valid instance of data type float''),
               db = vacia, n_commits = 0\<rparr> \<and>
   normalizar (lee_fecha\<lparr>infer_string := True\<rparr>)
       (PList [cliente_a1 ''Ana'']) (PList [caso_c1]) (PList [contrato_k8, contrato_huerfano]) =
     Modelled (Inr (\<lparr>columns = [''ci'', ''nombre'', ''apellido''], rows = [fila_a1]\<rparr>,
                    \<lparr>columns = [''nrocaso'', ''meteria''], rows = [fila_c1]\<rparr>,
                    \<lparr>columns = columnas_servicios, rows = [fila_k8, fila_k3]\<rparr>)) \<and>
   normalizar (lee_fecha\<lparr>infer_string := False\<rparr>)
       (PList [cliente_a1 ''Ana'']) (PList [caso_c1]) (PList [contrato_k8, contrato_huerfano]) =
     Modelled (Inr (\<lparr>columns = [''ci'', ''nombre'', ''apellido''], rows = [fila_a1]\<rparr>,
                    \<lparr>columns = [''nrocaso'', ''meteria''], rows = [fila_c1]\<rparr>,
                    \<lparr>columns = columnas_servicios,
                     rows = [fila_k8,
                             [PStr ''K3'', PTimestamp 1709251200000000000, PInt 100,
                              PNone, PNone]]\<rparr>))"
  by (simp add: main_fuente frame_defs scenario_defs db_defs huerfano_defs float64_7 float64_9)

end
